theory Spec2Isabelle
  imports Complex_Main
begin

section \<open>Numbers, tiles and sprites\<close>

text \<open>
  JavaScript numbers are modelled as reals. The only non-finite values the simulation
  produces come from \<^verbatim>\<open>Math.min()\<close> and \<^verbatim>\<open>Math.max()\<close> of an empty argument
  list in \<^verbatim>\<open>Sprite.computeBounds\<close> (\<^verbatim>\<open>Infinity\<close> and \<^verbatim>\<open>-Infinity\<close>); they are
  carried by the type \<open>ext\<close>, and an operation that would store one of them in a
  position is the error \<open>NonFinite\<close>. Exceptions thrown by the source are the other
  values of \<open>error\<close>.
\<close>

datatype error = NonFinite | TypeError

datatype ext = NegInf | Fin real | PosInf

fun emin :: "ext \<Rightarrow> ext \<Rightarrow> ext" where
  "emin NegInf b = NegInf"
| "emin a NegInf = NegInf"
| "emin PosInf b = b"
| "emin a PosInf = a"
| "emin (Fin a) (Fin b) = Fin (min a b)"

fun emax :: "ext \<Rightarrow> ext \<Rightarrow> ext" where
  "emax PosInf b = PosInf"
| "emax a PosInf = PosInf"
| "emax NegInf b = b"
| "emax a NegInf = a"
| "emax (Fin a) (Fin b) = Fin (max a b)"

text \<open>\<^verbatim>\<open>Math.max(lo, Math.min(hi, v))\<close> for a finite \<open>v\<close>.\<close>

definition clamp :: "ext \<Rightarrow> ext \<Rightarrow> real \<Rightarrow> ext" where
  "clamp lo hi v = emax lo (emin hi (Fin v))"

text \<open>
  A tile (\<^verbatim>\<open>tiles/tile.ts\<close>): its class (what \<^verbatim>\<open>instanceof\<close> tests), its static id
  (what \<^verbatim>\<open>toString()\<close> returns), its grid position and the fields of its JSON record.
\<close>

datatype tile_class = Sand | Road | Entrance | Exit | OtherTile

record tile =
  tclass :: tile_class
  tid :: string
  tpos :: "int \<times> int"
  tile_buyPrice :: real
  isObstacle :: bool
  isEdible :: bool
  isWater :: bool
  isAlwaysVisible :: bool
  fallbackTile :: string

datatype sprite_class = Herbivore | Carnivore | Ranger | Poacher | Jeep

datatype need_status = NeedNone | NeedFood | NeedDrink

record sprite_json =
  speed :: real
  spriteSize :: real
  baseViewDistance :: real
  buyPrice :: real
  chipPrice :: real
  salary :: real

text \<open>
  A visitor (\<^verbatim>\<open>visitor.ts\<close>); the animals it has seen are kept by registration number.
\<close>

record visitor =
  wantsRating :: real
  willingToPay :: real
  wantsToSeeCarnivores :: real
  wantsToSeeHerbivores :: real
  seenAnimals :: "nat list"

text \<open>
  The class hierarchy \<^verbatim>\<open>Sprite\<close> / \<^verbatim>\<open>Animal\<close> / \<^verbatim>\<open>Jeep\<close> is flattened into one
  record with a class tag: the fields of \<^verbatim>\<open>Sprite\<close> first, then those of \<^verbatim>\<open>Animal\<close>,
  then those of \<^verbatim>\<open>Jeep\<close>. Other sprites are referred to by registration number
  (\<^verbatim>\<open>Sprite.uuid++\<close> gives every instance its own), which stands for the object reference.
  Sets of positions are lists without repetition, in insertion order. A field that
  holds a reference to a position array of another object (\<^verbatim>\<open>pathTo\<close>, the remembered
  positions) holds the value that array has when the method is called.
\<close>

record sprite =
  sclass :: sprite_class
  sid :: string
  regNumber :: nat
  position :: "real \<times> real"
  pathTo :: "(real \<times> real) option"
  velocity :: "real \<times> real"
  isOnHill :: bool
  jsonData :: sprite_json
  visibleTiles :: "tile list"
  visibleSprites :: "nat list"
  restingTime :: real
  lastTile :: "tile option"
  age :: real
  isCaptured :: bool
  group :: int
  hasChip :: bool
  isWandering :: bool
  targetNeed :: need_status
  foodLevel :: real
  hydrationLevel :: real
  seenFoodPositions :: "(real \<times> real) list"
  seenWaterPositions :: "(real \<times> real) list"
  passengers :: "visitor list"
  path :: "tile list"

text \<open>\<^verbatim>\<open>get viewDistance\<close>: one and a half times the base value on a hill.\<close>

definition viewDistance :: "sprite \<Rightarrow> real" where
  "viewDistance s =
     (if isOnHill s then baseViewDistance (jsonData s) * 1.5 else baseViewDistance (jsonData s))"

definition updateVisibles :: "tile list \<Rightarrow> nat list \<Rightarrow> sprite \<Rightarrow> sprite" where
  "updateVisibles ts ss s = s\<lparr>visibleTiles := ts, visibleSprites := ss\<rparr>"

text \<open>
  \<^verbatim>\<open>updateVisiblesSignal.emit(this, important)\<close> calls every connected listener with
  the sprite. The listener of the map answers by \<^verbatim>\<open>sprite.updateVisibles(tiles, sprites)\<close>;
  a \<open>bus\<close> gives that answer for the emitting sprite and the flag, \<open>None\<close> when no
  listener is connected.
\<close>

type_synonym bus = "sprite \<Rightarrow> bool \<Rightarrow> (tile list \<times> nat list) option"

definition emitUpdateVisibles :: "bus \<Rightarrow> bool \<Rightarrow> sprite \<Rightarrow> sprite" where
  "emitUpdateVisibles b important s =
     (case b s important of None \<Rightarrow> s | Some (ts, ss) \<Rightarrow> updateVisibles ts ss s)"

definition nearTile :: "real \<times> real \<Rightarrow> tile \<Rightarrow> bool" where
  "nearTile p t =
     (\<bar>real_of_int (fst (tpos t)) - fst p\<bar> < 1 / 2 \<and> \<bar>real_of_int (snd (tpos t)) - snd p\<bar> < 1 / 2)"

text \<open>
  \<^verbatim>\<open>Sprite.move(dt, minX, minY, maxX, maxY)\<close>. Tiles are compared by value where the
  source compares object references (\<^verbatim>\<open>currentTile !== this._lastTile\<close>).
\<close>

definition move :: "bus \<Rightarrow> real \<Rightarrow> ext \<Rightarrow> ext \<Rightarrow> ext \<Rightarrow> ext \<Rightarrow> sprite \<Rightarrow> error + sprite" where
  "move b dt minX minY maxX maxY s =
     (case pathTo s of
        None \<Rightarrow> Inr s
      | Some target \<Rightarrow>
          let dx = fst target - fst (position s);
              dy = snd target - snd (position s);
              dist = sqrt (dx * dx + dy * dy);
              sp = speed (jsonData s)
          in if dist > 0 then
               let s1 = s\<lparr>velocity := (dx / dist * sp, dy / dist * sp)\<rparr>;
                   currentTile = find (nearTile (position s1)) (visibleTiles s1);
                   s2 = (if currentTile \<noteq> lastTile s1
                         then emitUpdateVisibles b False (s1\<lparr>lastTile := currentTile\<rparr>)
                         else s1);
                   slow = (case currentTile of Some t \<Rightarrow> isObstacle t | None \<Rightarrow> False);
                   moveX = (if slow then fst (velocity s2) * dt / 30 else fst (velocity s2) * dt / 10);
                   moveY = (if slow then snd (velocity s2) * dt / 30 else snd (velocity s2) * dt / 10)
               in if \<bar>moveX\<bar> \<ge> \<bar>dx\<bar> \<and> \<bar>moveY\<bar> \<ge> \<bar>dy\<bar> then Inr (s2\<lparr>position := target\<rparr>)
                  else
                    (case (clamp minX maxX (fst (position s2) + moveX),
                           clamp minY maxY (snd (position s2) + moveY)) of
                       (Fin nx, Fin ny) \<Rightarrow> Inr (s2\<lparr>position := (nx, ny)\<rparr>)
                     | _ \<Rightarrow> Inl NonFinite)
             else Inr s)"


section \<open>Animals\<close>

text \<open>
  \<^verbatim>\<open>Math.random()\<close> is a stream of reals, read from the front. The signals other than
  \<^verbatim>\<open>updateVisiblesSignal\<close> that a method emits are collected in order.
\<close>

datatype signal =
    AnimalDead nat
  | ShooterDead nat
  | TileEaten tile
  | TourFinished nat
  | TourRatings "real list"
  | TourStart
  | GoalMet
  | Losing
  | Bounty real

record actst =
  self :: sprite
  rng :: "nat \<Rightarrow> real"
  out :: "signal list"

definition random :: "actst \<Rightarrow> real" where
  "random st = rng st 0"

definition advance :: "actst \<Rightarrow> actst" where
  "advance st = st\<lparr>rng := (\<lambda>n. rng st (Suc n))\<rparr>"

text \<open>
  What an animal's methods reach outside the object: the signal bus, the objects behind
  the references in \<^verbatim>\<open>_visibleSprites\<close>, and the two abstract methods of \<^verbatim>\<open>Animal\<close>
  that \<^verbatim>\<open>act\<close> calls, which the subclasses implement.
\<close>

record env =
  bus :: bus
  look :: "nat \<Rightarrow> sprite option"
  updateMemory :: "sprite \<Rightarrow> sprite"
  fillFoodLevel :: "sprite \<Rightarrow> sprite \<times> signal list"

definition bindE :: "error + 'a \<Rightarrow> ('a \<Rightarrow> error + 'b) \<Rightarrow> error + 'b" where
  "bindE m f = (case m of Inl e \<Rightarrow> Inl e | Inr x \<Rightarrow> f x)"

record bounds =
  minX :: ext
  minY :: ext
  maxX :: ext
  maxY :: ext

text \<open>\<^verbatim>\<open>Sprite.computeBounds\<close>: \<^verbatim>\<open>Math.min(...xs)\<close> of no argument is \<^verbatim>\<open>Infinity\<close>.\<close>

definition computeBounds :: "tile list \<Rightarrow> bounds" where
  "computeBounds ts =
     (let xs = map (\<lambda>t. Fin (real_of_int (fst (tpos t)))) ts;
          ys = map (\<lambda>t. Fin (real_of_int (snd (tpos t)))) ts
      in \<lparr>minX = foldr emin xs PosInf, minY = foldr emin ys PosInf,
          maxX = foldr emax xs NegInf, maxY = foldr emax ys NegInf\<rparr>)"

definition isAtDestination :: "real \<Rightarrow> sprite \<Rightarrow> bool" where
  "isAtDestination threshold s =
     (case pathTo s of
        None \<Rightarrow> False
      | Some target \<Rightarrow> \<bar>fst (position s) - fst target\<bar> \<le> threshold
                      \<and> \<bar>snd (position s) - snd target\<bar> \<le> threshold)"

definition updateState :: "sprite \<Rightarrow> sprite" where
  "updateState s =
     s\<lparr>isOnHill := list_ex (\<lambda>t. fst (tpos t) = \<lfloor>fst (position s)\<rfloor>
                               \<and> snd (tpos t) = \<lfloor>snd (position s)\<rfloor>
                               \<and> tid t = ''safari:hill'') (visibleTiles s)\<rparr>"

definition isHungry :: "sprite \<Rightarrow> bool" where
  "isHungry s = (foodLevel s < 85)"

definition isThirsty :: "sprite \<Rightarrow> bool" where
  "isThirsty s = (hydrationLevel s < 80)"

definition isAdult :: "sprite \<Rightarrow> bool" where
  "isAdult s = (age s \<ge> 18)"

definition isAnimal :: "sprite \<Rightarrow> bool" where
  "isAnimal s = (sclass s = Herbivore \<or> sclass s = Carnivore)"

definition setAdd :: "'a \<Rightarrow> 'a list \<Rightarrow> 'a list" where
  "setAdd x xs = (if x \<in> set xs then xs else xs @ [x])"

definition rpos :: "tile \<Rightarrow> real \<times> real" where
  "rpos t = (real_of_int (fst (tpos t)), real_of_int (snd (tpos t)))"

definition updateWaterMemory :: "sprite \<Rightarrow> sprite" where
  "updateWaterMemory s =
     (let waters = map rpos (filter isWater (visibleTiles s));
          seen = fold setAdd waters (seenWaterPositions s)
      in s\<lparr>seenWaterPositions :=
             filter (\<lambda>p. \<not> (p \<notin> set waters \<and> p \<in> set (map rpos (visibleTiles s)))) seen\<rparr>)"

definition interpolateRange :: "real \<Rightarrow> real \<Rightarrow> real \<Rightarrow> real" where
  "interpolateRange from to t = from + (to - from) * t"

text \<open>
  \<^verbatim>\<open>Animal.updateHungerAndThirst\<close>. A rate whose divisor is zero is \<^verbatim>\<open>Infinity\<close> in
  the source.
\<close>

definition updateHungerAndThirst :: "real \<Rightarrow> actst \<Rightarrow> error + actst" where
  "updateHungerAndThirst dt st =
     (let s = self st;
          normalizedAge = min (age s / 30) 1;
          hydrationDuration = interpolateRange 180 30 normalizedAge;
          hydrationRandomFactor = 0.85 + random st * 0.3;
          st1 = advance st;
          hydrationFinalDuration = hydrationDuration * hydrationRandomFactor;
          foodDuration = interpolateRange 200 60 (normalizedAge * 0.7);
          foodRandomFactor = 0.9 + random st1 * 0.2;
          st2 = advance st1;
          foodFinalDuration = foodDuration * foodRandomFactor
      in if hydrationFinalDuration = 0 \<or> foodFinalDuration = 0 then Inl NonFinite
         else Inr (st2\<lparr>self := s\<lparr>
                hydrationLevel := max 0 (hydrationLevel s - 3 / hydrationFinalDuration * dt),
                foodLevel := max 0 (foodLevel s - 2 / foodFinalDuration * dt)\<rparr>\<rparr>))"

definition findClosest :: "real \<times> real \<Rightarrow> (real \<times> real) list \<Rightarrow> (real \<times> real) option" where
  "findClosest p ps =
     map_option fst
       (fold (\<lambda>q best.
                let dx = fst q - fst p; dy = snd q - snd p; d = dx * dx + dy * dy
                in (case best of
                      None \<Rightarrow> Some (q, d)
                    | Some (b, bd) \<Rightarrow> if d < bd then Some (q, d) else best))
             ps None)"

definition isResting :: "real \<Rightarrow> sprite \<Rightarrow> bool \<times> sprite" where
  "isResting dt s =
     (if restingTime s > 0 then (True, s\<lparr>restingTime := max 0 (restingTime s - dt)\<rparr>)
      else (False, s))"

text \<open>\<^verbatim>\<open>Animal.getShotBy\<close>: the shot kills with probability 0.8.\<close>

definition getShotBy :: "actst \<Rightarrow> bool \<times> actst" where
  "getShotBy st =
     (let s1 = (self st)\<lparr>velocity := (0, 0), pathTo := None\<rparr>;
          chance = random st;
          st1 = (advance st)\<lparr>self := s1\<rparr>
      in if chance < 0.8 then (True, st1\<lparr>out := out st1 @ [AnimalDead (regNumber s1)]\<rparr>)
         else (False, st1))"

definition capture :: "real \<times> real \<Rightarrow> sprite \<Rightarrow> sprite" where
  "capture target s =
     s\<lparr>isCaptured := True, foodLevel := 100, hydrationLevel := 100, restingTime := 0,
       pathTo := Some target\<rparr>"

definition chooseNeedTarget :: "sprite \<Rightarrow> sprite \<times> (real \<times> real) option" where
  "chooseNeedTarget s =
     (let (s1, needPosition) =
            (if isThirsty s \<and> targetNeed s \<noteq> NeedFood
             then (s\<lparr>targetNeed := NeedDrink\<rparr>, findClosest (position s) (seenWaterPositions s))
             else (s, None))
      in if (isHungry s1 \<and> targetNeed s1 \<noteq> NeedDrink) \<or> (isHungry s1 \<and> needPosition = None)
         then (s1\<lparr>targetNeed := NeedFood\<rparr>, findClosest (position s1) (seenFoodPositions s1))
         else (s1, needPosition))"

definition getNearTiles :: "sprite \<Rightarrow> tile list" where
  "getNearTiles s =
     filter (\<lambda>t. \<bar>fst (rpos t) - fst (position s)\<bar> \<le> 1 / 2 \<and> \<bar>snd (rpos t) - snd (position s)\<bar> < 1 / 2)
       (visibleTiles s)"

text \<open>
  The random tile of \<^verbatim>\<open>chooseRandomTarget\<close>: \<^verbatim>\<open>nonObstacleTiles[Math.floor(Math.random() * n)]\<close>,
  clamped to the bounds. Reading the position of an index outside the array throws.
\<close>

definition randomTileTarget ::
  "bounds \<Rightarrow> tile list \<Rightarrow> actst \<Rightarrow> error + (actst \<times> (real \<times> real) option)" where
  "randomTileTarget b ts st =
     (let randomTileIndex = \<lfloor>random st * real (length ts)\<rfloor>;
          st1 = advance st
      in if 0 \<le> randomTileIndex \<and> nat randomTileIndex < length ts then
           (let randomTile = ts ! nat randomTileIndex
            in case (clamp (minX b) (maxX b) (fst (rpos randomTile)),
                     clamp (minY b) (maxY b) (snd (rpos randomTile))) of
                 (Fin x, Fin y) \<Rightarrow> Inr (st1, Some (x, y))
               | _ \<Rightarrow> Inl NonFinite)
         else Inl TypeError)"

text \<open>The loop \<^verbatim>\<open>for (let attempts = 0; attempts < 10; attempts++)\<close>, by attempts left.\<close>

fun wanderAttempts ::
  "nat \<Rightarrow> bounds \<Rightarrow> real \<times> real \<Rightarrow> tile list \<Rightarrow> actst \<Rightarrow> error + (actst \<times> (real \<times> real) option)" where
  "wanderAttempts 0 b avg vts st = Inr (st, None)"
| "wanderAttempts (Suc k) b avg vts st =
     (let radius = 1 + random st * 2.5;
          st1 = advance st;
          angle = random st1 * 2 * pi;
          st2 = advance st1;
          offset = (cos angle * radius, sin angle * radius)
      in case (clamp (minX b) (maxX b) (fst avg + fst offset),
               clamp (minY b) (maxY b) (snd avg + snd offset)) of
           (Fin targetX, Fin targetY) \<Rightarrow>
             (case find (\<lambda>t. fst (tpos t) = \<lfloor>targetX\<rfloor> \<and> snd (tpos t) = \<lfloor>targetY\<rfloor>) vts of
                None \<Rightarrow> Inr (st2, Some (targetX, targetY))
              | Some t \<Rightarrow> if \<not> isObstacle t then Inr (st2, Some (targetX, targetY))
                          else wanderAttempts k b avg vts st2)
         | _ \<Rightarrow> Inl NonFinite)"

definition chooseRandomTarget ::
  "env \<Rightarrow> bounds \<Rightarrow> actst \<Rightarrow> error + (actst \<times> (real \<times> real) option)" where
  "chooseRandomTarget e b st =
     (let s = self st;
          nonObstacleTiles = filter (\<lambda>t. \<not> isObstacle t) (visibleTiles s)
      in if nonObstacleTiles = [] then Inr (st, None)
         else
           let groupmates = filter (\<lambda>m. isAnimal m \<and> group m = group s)
                              (List.map_filter (look e) (visibleSprites s))
           in if groupmates = [] then randomTileTarget b nonObstacleTiles st
              else
                let total = fold (\<lambda>m acc. (fst acc + fst (position m), snd acc + snd (position m)))
                              groupmates (0, 0);
                    avg = (fst total / real (length groupmates), snd total / real (length groupmates))
                in bindE (wanderAttempts 10 b avg (visibleTiles s) st)
                     (\<lambda>(st1, p). case p of
                          Some q \<Rightarrow> Inr (st1, Some q)
                        | None \<Rightarrow> randomTileTarget b nonObstacleTiles st1))"

definition handleArrival :: "env \<Rightarrow> actst \<Rightarrow> actst" where
  "handleArrival e st =
     (case pathTo (self st) of
        None \<Rightarrow> st
      | Some target \<Rightarrow>
          let s1 = (self st)\<lparr>velocity := (0, 0), pathTo := None, isWandering := False,
                             targetNeed := NeedNone\<rparr>
          in if isCaptured s1 then st\<lparr>self := s1, out := out st @ [AnimalDead (regNumber s1)]\<rparr>
             else
               let s2 = s1\<lparr>restingTime := 50 + random st * 16\<rparr>;
                   st1 = advance st;
                   s3 = (if list_ex isWater (getNearTiles s2) then s2\<lparr>hydrationLevel := 100\<rparr> else s2);
                   (s4, sigs) = fillFoodLevel e s3
               in st1\<lparr>self := s4, out := out st1 @ sigs\<rparr>)"

definition decideAction :: "env \<Rightarrow> real \<Rightarrow> actst \<Rightarrow> error + actst" where
  "decideAction e dt st =
     (let bnds = computeBounds (visibleTiles (self st));
          (s1, target) = chooseNeedTarget (self st);
          st1 = st\<lparr>self := s1\<rparr>
      in bindE
           (if (isHungry s1 \<or> isThirsty s1) \<and> \<not> isCaptured s1 then
              (case target of
                 Some t \<Rightarrow> Inr (st1\<lparr>self := s1\<lparr>pathTo := Some t, isWandering := False\<rparr>\<rparr>)
               | None \<Rightarrow>
                   if \<not> isWandering s1 then
                     bindE (chooseRandomTarget e bnds st1)
                       (\<lambda>(st2, p). Inr (st2\<lparr>self := (self st2)\<lparr>pathTo := p, isWandering := True,
                                                               targetNeed := NeedNone\<rparr>\<rparr>))
                   else Inr (st1\<lparr>self := s1\<lparr>targetNeed := NeedNone\<rparr>\<rparr>))
            else if pathTo s1 = None \<and> \<not> isCaptured s1 then
              bindE (chooseRandomTarget e bnds st1)
                (\<lambda>(st2, p). Inr (st2\<lparr>self := (self st2)\<lparr>pathTo := p\<rparr>\<rparr>))
            else Inr st1)
           (\<lambda>st3. if pathTo (self st3) \<noteq> None \<and> isAtDestination (1 / 2) (self st3)
                  then Inr (handleArrival e st3)
                  else map_sum id (\<lambda>s. st3\<lparr>self := s\<rparr>)
                         (move (bus e) dt (minX bnds) (minY bnds) (maxX bnds) (maxY bnds) (self st3))))"

text \<open>
  \<^verbatim>\<open>Animal.act(dt)\<close>. Its first three statements (\<^verbatim>\<open>updateState\<close>, ageing, and the
  decay of food and hydration unless captured) are \<open>ageAndDecay\<close>.
\<close>

definition ageAndDecay :: "real \<Rightarrow> actst \<Rightarrow> error + actst" where
  "ageAndDecay dt st =
     (let s0 = updateState (self st);
          s1 = s0\<lparr>age := age s0 + dt / 1440\<rparr>;
          st1 = st\<lparr>self := s1\<rparr>
      in if \<not> isCaptured s1 then updateHungerAndThirst dt st1 else Inr st1)"

definition act :: "env \<Rightarrow> real \<Rightarrow> actst \<Rightarrow> error + actst" where
  "act e dt st =
     (bindE (ageAndDecay dt st)
           (\<lambda>st2.
              let s2 = self st2
              in if foodLevel s2 \<le> 0 \<or> hydrationLevel s2 \<le> 0
                 then Inr (st2\<lparr>out := out st2 @ [AnimalDead (regNumber s2)]\<rparr>)
                 else
                   let st3 = (if isHungry s2 \<or> isThirsty s2
                              then st2\<lparr>self := (updateMemory e (emitUpdateVisibles (bus e) False s2))
                                                 \<lparr>restingTime := 0\<rparr>\<rparr>
                              else st2);
                       (resting, s4) = isResting dt (self st3)
                   in if \<not> resting then decideAction e dt (st3\<lparr>self := s4\<rparr>)
                      else Inr (st3\<lparr>self := s4\<rparr>)))"

text \<open>The implementation of the abstract methods in \<^verbatim>\<open>Herbivore\<close>.\<close>

definition updateFoodMemory :: "sprite \<Rightarrow> sprite" where
  "updateFoodMemory s =
     (let edibles = map rpos (filter isEdible (visibleTiles s));
          seen = fold setAdd edibles (seenFoodPositions s)
      in s\<lparr>seenFoodPositions :=
             filter (\<lambda>p. \<not> (p \<notin> set edibles \<and> p \<in> set (map rpos (visibleTiles s)))) seen\<rparr>)"

definition herbivoreUpdateMemory :: "sprite \<Rightarrow> sprite" where
  "herbivoreUpdateMemory s = updateFoodMemory (updateWaterMemory s)"

definition herbivoreFillFoodLevel :: "sprite \<Rightarrow> sprite \<times> signal list" where
  "herbivoreFillFoodLevel s =
     (let eaten = filter isEdible (getNearTiles s)
      in ((if eaten = [] then s else s\<lparr>foodLevel := 100\<rparr>), map TileEaten eaten))"

text \<open>A herbivore on its own: no listener on the bus, no other sprite.\<close>

definition herbivoreAlone :: env where
  "herbivoreAlone = \<lparr>bus = (\<lambda>s important. None), look = (\<lambda>n. None),
     updateMemory = herbivoreUpdateMemory, fillFoodLevel = herbivoreFillFoodLevel\<rparr>"

definition zebra :: sprite where
  "zebra = \<lparr>sclass = Herbivore, sid = ''safari:zebra'', regNumber = 0, position = (9, 0),
     pathTo = Some (10, 0), velocity = (0, 0), isOnHill = False,
     jsonData = \<lparr>speed = 10, spriteSize = 1, baseViewDistance = 10, buyPrice = 100, chipPrice = 0,
                 salary = 0\<rparr>,
     visibleTiles = [], visibleSprites = [], restingTime = 0, lastTile = None, age = 0,
     isCaptured = False, group = 1, hasChip = False, isWandering = False, targetNeed = NeedNone,
     foodLevel = 100, hydrationLevel = 100, seenFoodPositions = [], seenWaterPositions = [],
     passengers = [], path = []\<rparr>"

definition slowZebra :: sprite where
  "slowZebra = zebra\<lparr>jsonData := (jsonData zebra)\<lparr>speed := 1\<rparr>\<rparr>"

definition hungryZebra :: sprite where
  "hungryZebra = zebra\<lparr>position := (0, 0), pathTo := None, foodLevel := 50, restingTime := 2,
     seenFoodPositions := [(1, 0)]\<rparr>"

definition restingZebra :: sprite where
  "restingZebra = zebra\<lparr>position := (0, 0), pathTo := None, restingTime := 2\<rparr>"

text \<open>The state \<^verbatim>\<open>capture\<close> leaves an animal in, as far as \<^verbatim>\<open>act\<close> reads it.\<close>

definition carriedOff :: "sprite \<Rightarrow> bool" where
  "carriedOff s =
     (isCaptured s \<and> foodLevel s = 100 \<and> hydrationLevel s = 100 \<and> restingTime s = 0)"

text \<open>Successive calls of \<^verbatim>\<open>act\<close>, one per tick, each with the environment of its tick.\<close>

fun acts :: "(env \<times> real) list \<Rightarrow> actst \<Rightarrow> error + actst" where
  "acts [] st = Inr st"
| "acts ((e, dt) # ticks) st = bindE (act e dt st) (acts ticks)"

definition onObstacle :: "sprite \<Rightarrow> bool" where
  "onObstacle s =
     (case find (nearTile (position s)) (visibleTiles s) of
        Some t \<Rightarrow> isObstacle t | None \<Rightarrow> False)"

section \<open>The map\<close>

text \<open>
  The definition data of the kinds (the registries of \<^verbatim>\<open>utils/registry.ts\<close> filled by the
  class decorators, and the JSON records \<^verbatim>\<open>load()\<close> fetches) is not part of the sources;
  it is a parameter. \<open>tileRegistry\<close> gives, for a registered id, the loaded tile the class
  constructs; the animal registries give the JSON record of a registered id.
\<close>

record assets =
  tileRegistry :: "string \<Rightarrow> tile option"
  herbivoreRegistry :: "string \<Rightarrow> sprite_json option"
  carnivoreRegistry :: "string \<Rightarrow> sprite_json option"
  jeepJson :: sprite_json
  rangerJson :: sprite_json
  poacherJson :: sprite_json

record cache_entry =
  c_time :: real
  c_position :: "int \<times> int"
  c_viewDistance :: real
  c_visibleTiles :: "tile list"
  c_visibleSprites :: "nat list"

text \<open>
  What an \<^verbatim>\<open>async\<close> method still has to do when it suspends at \<^verbatim>\<open>await x.load()\<close>:
  it runs after the synchronous tick has returned.
\<close>

datatype deferred = PlaceTile tile | LoadAndAdd sprite

text \<open>
  The state of \<^verbatim>\<open>Map\<close> (\<^verbatim>\<open>map.ts\<close>) with the part of the heap it reaches. \<open>objs\<close> holds the
  sprite objects by registration number and \<open>uuid\<close> is the counter \<^verbatim>\<open>Sprite.uuid\<close>.
  The field \<^verbatim>\<open>_sprites\<close> holds a reference to an array object: \<open>arrays\<close> is the store of
  these arrays, \<open>sprites\<close> the address the field holds, \<open>nextArray\<close> the next free
  address. \<open>emitted\<close> is the log of the signals emitted, in order (\<^verbatim>\<open>updateVisiblesSignal\<close>
  apart), and \<open>acted\<close> the log of the calls of \<^verbatim>\<open>act\<close> made by \<^verbatim>\<open>tick\<close>, by registration
  number.
\<close>

record safari_map =
  tiles :: "tile list list"
  objs :: "nat \<Rightarrow> sprite option"
  uuid :: nat
  arrays :: "nat \<Rightarrow> nat list"
  sprites :: nat
  nextArray :: nat
  width :: int
  height :: int
  groups :: "(int \<times> string) list"
  waitingJeeps :: "nat list"
  waitingVisitors :: "visitor list"
  paths :: "tile list list"
  totalVisitorCount :: real
  plantTimer :: real
  poacherTimer :: real
  visiblesCache :: "cache_entry list"
  pending :: "deferred list"
  emitted :: "signal list"
  acted :: "nat list"

definition spriteList :: "safari_map \<Rightarrow> nat list" where
  "spriteList m = arrays m (sprites m)"

definition inBounds :: "safari_map \<Rightarrow> int \<Rightarrow> int \<Rightarrow> bool" where
  "inBounds m x y = (x \<ge> 0 \<and> x < width m \<and> y \<ge> 0 \<and> y < height m)"

text \<open>\<^verbatim>\<open>this._tiles[x][y]\<close> where the source has checked the bounds.\<close>

definition tileAt :: "safari_map \<Rightarrow> int \<Rightarrow> int \<Rightarrow> tile" where
  "tileAt m x y = tiles m ! nat x ! nat y"

text \<open>
  \<^verbatim>\<open>getTileAt(x, y)\<close>, unchecked in the source: outside the grid it throws or returns
  \<^verbatim>\<open>undefined\<close>, on which the caller's next member access throws.
\<close>

definition getTileAt :: "safari_map \<Rightarrow> int \<Rightarrow> int \<Rightarrow> error + tile" where
  "getTileAt m x y =
     (if 0 \<le> x \<and> nat x < length (tiles m) \<and> 0 \<le> y \<and> nat y < length (tiles m ! nat x)
      then Inr (tiles m ! nat x ! nat y) else Inl TypeError)"

text \<open>\<^verbatim>\<open>placeTile(tile)\<close>; every caller passes a tile whose position is in the grid.\<close>

definition placeTile :: "tile \<Rightarrow> safari_map \<Rightarrow> safari_map" where
  "placeTile t m =
     m\<lparr>tiles := (tiles m)[nat (fst (tpos t)) := (tiles m ! nat (fst (tpos t)))[nat (snd (tpos t)) := t]]\<rparr>"

text \<open>\<^verbatim>\<open>addSprite\<close> pushes onto the array \<^verbatim>\<open>_sprites\<close> refers to.\<close>

definition addSprite :: "nat \<Rightarrow> safari_map \<Rightarrow> safari_map" where
  "addSprite r m = m\<lparr>arrays := (arrays m)(sprites m := arrays m (sprites m) @ [r])\<rparr>"

text \<open>\<^verbatim>\<open>removeSprite\<close> stores the array \<^verbatim>\<open>filter\<close> allocates in \<^verbatim>\<open>_sprites\<close>.\<close>

definition removeSprite :: "nat \<Rightarrow> safari_map \<Rightarrow> safari_map" where
  "removeSprite r m =
     m\<lparr>arrays := (arrays m)(nextArray m := filter (\<lambda>s. s \<noteq> r) (arrays m (sprites m))),
       sprites := nextArray m, nextArray := Suc (nextArray m)\<rparr>"

definition addNewJeep :: "nat \<Rightarrow> safari_map \<Rightarrow> safari_map" where
  "addNewJeep j m = m\<lparr>waitingJeeps := waitingJeeps m @ [j]\<rparr>"

definition queueVisitor :: "visitor \<Rightarrow> safari_map \<Rightarrow> safari_map" where
  "queueVisitor v m = m\<lparr>waitingVisitors := waitingVisitors m @ [v]\<rparr>"

definition addGroup :: "int \<Rightarrow> string \<Rightarrow> safari_map \<Rightarrow> safari_map" where
  "addGroup g i m = (if g \<in> fst ` set (groups m) then m else m\<lparr>groups := groups m @ [(g, i)]\<rparr>)"

definition modify :: "nat \<Rightarrow> (sprite \<Rightarrow> sprite) \<Rightarrow> safari_map \<Rightarrow> safari_map" where
  "modify r f m = (case objs m r of None \<Rightarrow> m | Some s \<Rightarrow> m\<lparr>objs := (objs m)(r \<mapsto> f s)\<rparr>)"

text \<open>
  The values \<^verbatim>\<open>dx\<close> takes in \<^verbatim>\<open>for (let dx = -vd; dx <= vd; dx++)\<close>.
\<close>

definition offsets :: "real \<Rightarrow> real list" where
  "offsets vd = map (\<lambda>k. - vd + real k) [0 ..< nat (\<lfloor>2 * vd\<rfloor> + 1)]"

definition getVisibleTiles :: "safari_map \<Rightarrow> sprite \<Rightarrow> tile list" where
  "getVisibleTiles m s =
     (let viewdistance = viewDistance s;
          cellX = \<lfloor>fst (position s)\<rfloor>;
          cellY = \<lfloor>snd (position s)\<rfloor>
      in concat (map (\<lambda>dx. concat (map (\<lambda>dy.
           let tileX = \<lfloor>real_of_int cellX + dx\<rfloor>; tileY = \<lfloor>real_of_int cellY + dy\<rfloor>
           in if tileX \<ge> 0 \<and> tileX < width m \<and> tileY \<ge> 0 \<and> tileY < height m
              then [tileAt m tileX tileY] else [])
           (offsets viewdistance))) (offsets viewdistance)))"

text \<open>
  \<^verbatim>\<open>getVisibleSprites(sprite)\<close>; the argument is the reference, and
  \<^verbatim>\<open>otherSprite === sprite\<close> compares references.
\<close>

definition inView :: "sprite \<Rightarrow> sprite \<Rightarrow> bool" where
  "inView s other =
     (let viewdistance = viewDistance s;
          cellX = real_of_int \<lfloor>fst (position s)\<rfloor>;
          cellY = real_of_int \<lfloor>snd (position s)\<rfloor>
      in fst (position other) \<ge> cellX - viewdistance \<and> fst (position other) \<le> cellX + viewdistance
         \<and> snd (position other) \<ge> cellY - viewdistance \<and> snd (position other) \<le> cellY + viewdistance)"

definition getVisibleSprites :: "safari_map \<Rightarrow> nat \<Rightarrow> nat list" where
  "getVisibleSprites m r =
     (case objs m r of
        None \<Rightarrow> []
      | Some s \<Rightarrow>
          filter (\<lambda>other. other \<noteq> r
                    \<and> (case objs m other of None \<Rightarrow> False | Some os \<Rightarrow> inView s os))
            (spriteList m))"

fun findIndex :: "('a \<Rightarrow> bool) \<Rightarrow> 'a list \<Rightarrow> nat option" where
  "findIndex P [] = None"
| "findIndex P (x # xs) = (if P x then Some 0 else map_option Suc (findIndex P xs))"

definition sameKey :: "int \<times> int \<Rightarrow> real \<Rightarrow> cache_entry \<Rightarrow> bool" where
  "sameKey p vd v = (c_position v = p \<and> c_viewDistance v = vd)"

text \<open>The listener of \<^verbatim>\<open>updateVisiblesSignal\<close> connected in the constructor.\<close>

definition onUpdateVisibles :: "nat \<Rightarrow> bool \<Rightarrow> safari_map \<Rightarrow> safari_map" where
  "onUpdateVisibles r important m =
     (case objs m r of
        None \<Rightarrow> m
      | Some s \<Rightarrow>
          let p = (\<lfloor>fst (position s)\<rfloor>, \<lfloor>snd (position s)\<rfloor>);
              vd = viewDistance s;
              idx = findIndex (sameKey p vd) (visiblesCache m);
              visTiles = getVisibleTiles m s;
              visSprites = getVisibleSprites m r
          in (case idx of
                Some i \<Rightarrow>
                  if \<not> important then
                    let cached = visiblesCache m ! i
                    in m\<lparr>objs := (objs m)(r \<mapsto> updateVisibles (c_visibleTiles cached)
                                                    (c_visibleSprites cached) s),
                         visiblesCache := (visiblesCache m)[i := cached\<lparr>c_time := 0\<rparr>]\<rparr>
                  else
                    m\<lparr>objs := (objs m)(r \<mapsto> updateVisibles visTiles visSprites s),
                      visiblesCache := (take i (visiblesCache m) @ drop (Suc i) (visiblesCache m))
                         @ [\<lparr>c_time = 0, c_position = p, c_viewDistance = vd,
                              c_visibleTiles = visTiles, c_visibleSprites = visSprites\<rparr>]\<rparr>
              | None \<Rightarrow>
                  m\<lparr>objs := (objs m)(r \<mapsto> updateVisibles visTiles visSprites s),
                    visiblesCache := visiblesCache m
                       @ [\<lparr>c_time = 0, c_position = p, c_viewDistance = vd,
                            c_visibleTiles = visTiles, c_visibleSprites = visSprites\<rparr>]\<rparr>))"





definition createTile :: "assets \<Rightarrow> string \<Rightarrow> int \<Rightarrow> int \<Rightarrow> tile option" where
  "createTile a i x y = map_option (\<lambda>t. t\<lparr>tpos := (x, y)\<rparr>) (tileRegistry a i)"

text \<open>
  The listeners connected in the constructor of \<^verbatim>\<open>Map\<close>. The listener of
  \<^verbatim>\<open>tileEatenSignal\<close> suspends at \<^verbatim>\<open>await fallbackTile.load()\<close> before it places the tile.
\<close>

definition onSignal :: "assets \<Rightarrow> signal \<Rightarrow> safari_map \<Rightarrow> safari_map" where
  "onSignal a sg m =
     (let m0 = m\<lparr>emitted := emitted m @ [sg]\<rparr>
      in case sg of
           AnimalDead r \<Rightarrow> removeSprite r m0
         | ShooterDead r \<Rightarrow> removeSprite r m0
         | TourFinished j \<Rightarrow>
             (let m1 = removeSprite j m0
              in m1\<lparr>waitingJeeps := waitingJeeps m1 @ [j],
                    totalVisitorCount := totalVisitorCount m1 + 4\<rparr>)
         | TileEaten t \<Rightarrow>
             (case createTile a (fallbackTile t) (fst (tpos t)) (snd (tpos t)) of
                None \<Rightarrow> m0
              | Some ft \<Rightarrow> m0\<lparr>pending := pending m0 @ [PlaceTile ft]\<rparr>)
         | _ \<Rightarrow> m0)"

text \<open>
  \<^verbatim>\<open>Sprite.act\<close> is abstract, and \<^verbatim>\<open>tick\<close> calls it on whatever the array holds. What
  a call of \<^verbatim>\<open>act\<close> does to the map and the heap is a list of effects, in order: a signal
  it emits, a write to a sprite object, or a call of the public \<^verbatim>\<open>addSprite\<close>. A
  behaviour gives the effects of \<^verbatim>\<open>act(dt)\<close> of a sprite in a state.
\<close>

datatype effect =
    Emit signal
  | EmitUpdateVisibles nat bool
  | Store nat sprite
  | CallAddSprite nat

type_synonym behaviour = "nat \<Rightarrow> real \<Rightarrow> safari_map \<Rightarrow> effect list"

definition runEffect :: "assets \<Rightarrow> effect \<Rightarrow> safari_map \<Rightarrow> safari_map" where
  "runEffect a ef m =
     (case ef of
        Emit sg \<Rightarrow> onSignal a sg m
      | EmitUpdateVisibles r important \<Rightarrow> onUpdateVisibles r important m
      | Store r s \<Rightarrow> m\<lparr>objs := (objs m)(r \<mapsto> s)\<rparr>
      | CallAddSprite r \<Rightarrow> addSprite r m)"

text \<open>
  \<^verbatim>\<open>this._sprites.forEach(sprite => sprite.act(dt))\<close>. \<^verbatim>\<open>forEach\<close> reads the length of
  the array once, then visits the indices below it that the array still has, reading
  each element when its turn comes; \<open>arr\<close> is the address of the array it was called
  on, \<open>k\<close> the index and the third argument the number of indices left.
\<close>

fun forEachAct :: "assets \<Rightarrow> behaviour \<Rightarrow> real \<Rightarrow> nat \<Rightarrow> nat \<Rightarrow> nat \<Rightarrow> safari_map \<Rightarrow> safari_map" where
  "forEachAct a beh dt arr k 0 m = m"
| "forEachAct a beh dt arr k (Suc n) m =
     (if k < length (arrays m arr) then
        let r = arrays m arr ! k;
            m1 = m\<lparr>acted := acted m @ [r]\<rparr>
        in forEachAct a beh dt arr (Suc k) n (fold (runEffect a) (beh r dt m1) m1)
      else forEachAct a beh dt arr (Suc k) n m)"

text \<open>\<^verbatim>\<open>Visitor.rating\<close> and \<^verbatim>\<open>Jeep.getRatings\<close>.\<close>

definition visitorRating :: "(nat \<Rightarrow> sprite option) \<Rightarrow> visitor \<Rightarrow> real" where
  "visitorRating os v =
     (let seenCarnivores = length (filter (\<lambda>r. case os r of None \<Rightarrow> False
                                                 | Some s \<Rightarrow> sclass s = Carnivore) (seenAnimals v));
          seenHerbivores = length (filter (\<lambda>r. case os r of None \<Rightarrow> False
                                                 | Some s \<Rightarrow> sclass s = Herbivore) (seenAnimals v));
          carnivoreRating = (if wantsToSeeCarnivores v = 0 then 5
             else min 5 (max 1 (real_of_int \<lfloor>real seenCarnivores / wantsToSeeCarnivores v * 5\<rfloor>)));
          herbivoreRating = (if wantsToSeeHerbivores v = 0 then 5
             else min 5 (max 1 (real_of_int \<lfloor>real seenHerbivores / wantsToSeeHerbivores v * 5\<rfloor>)))
      in real_of_int \<lfloor>(carnivoreRating + herbivoreRating) / 2\<rfloor>)"

definition getRatings :: "safari_map \<Rightarrow> nat \<Rightarrow> real list" where
  "getRatings m j =
     (case objs m j of None \<Rightarrow> [] | Some s \<Rightarrow> map (visitorRating (objs m)) (passengers s))"

definition jeepsAtExit :: "safari_map \<Rightarrow> nat list" where
  "jeepsAtExit m =
     filter (\<lambda>r. case objs m r of
                   None \<Rightarrow> False
                 | Some s \<Rightarrow> sclass s = Jeep \<and> \<lfloor>fst (position s)\<rfloor> = width m - 1
                              \<and> \<lfloor>snd (position s)\<rfloor> = height m - 1)
       (spriteList m)"

definition advanceRng :: "(nat \<Rightarrow> real) \<Rightarrow> nat \<Rightarrow> real" where
  "advanceRng g = (\<lambda>n. g (Suc n))"

text \<open>
  The synchronous part of \<^verbatim>\<open>tileGeneration(1, type)\<close>, by attempts left: it runs up to
  its first \<^verbatim>\<open>await tile.load()\<close>, and the placing of the tile is deferred. An exception in
  an \<^verbatim>\<open>async\<close> method rejects its promise and does not reach the caller.
\<close>

fun plantAttempts ::
  "nat \<Rightarrow> assets \<Rightarrow> string \<Rightarrow> safari_map \<times> (nat \<Rightarrow> real) \<Rightarrow> safari_map \<times> (nat \<Rightarrow> real)" where
  "plantAttempts 0 a ty (m, g) = (m, g)"
| "plantAttempts (Suc k) a ty (m, g) =
     (let x = \<lfloor>g 0 * real_of_int (width m)\<rfloor>;
          y = \<lfloor>g 1 * real_of_int (height m)\<rfloor>;
          g1 = advanceRng (advanceRng g)
      in case getTileAt m x y of
           Inl err \<Rightarrow> (m, g1)
         | Inr currentTile \<Rightarrow>
             if tclass currentTile = Sand then
               (case createTile a (''safari:'' @ ty) x y of
                  None \<Rightarrow> (m, g1)
                | Some t \<Rightarrow> (m\<lparr>pending := pending m @ [PlaceTile t]\<rparr>, g1))
             else plantAttempts k a ty (m, g1))"

definition generatePlants ::
  "assets \<Rightarrow> real \<Rightarrow> safari_map \<times> (nat \<Rightarrow> real) \<Rightarrow> safari_map \<times> (nat \<Rightarrow> real)" where
  "generatePlants a dt mg =
     (let m1 = (fst mg)\<lparr>plantTimer := plantTimer (fst mg) + dt\<rparr>;
          g = snd mg;
          g1 = advanceRng g
      in if plantTimer m1 \<ge> 480 * (g 0 * (2.5 - 1) + 1) then
           let plantTypes = [''acacia'', ''grass'', ''oak''];
               i = \<lfloor>g1 0 * 3\<rfloor>;
               chosenType = (if 0 \<le> i \<and> nat i < 3 then plantTypes ! nat i else ''undefined'')
           in plantAttempts 3 a chosenType (m1\<lparr>plantTimer := 0\<rparr>, advanceRng g1)
         else (m1, g1))"

text \<open>The constructors of \<^verbatim>\<open>Sprite\<close> and \<^verbatim>\<open>Animal\<close>; the JSON record is what \<^verbatim>\<open>load()\<close> sets.\<close>

definition newSprite :: "sprite_class \<Rightarrow> string \<Rightarrow> nat \<Rightarrow> real \<times> real \<Rightarrow> int \<Rightarrow> sprite_json \<Rightarrow> sprite" where
  "newSprite c i n p g j =
     \<lparr>sclass = c, sid = i, regNumber = n, position = p, pathTo = None, velocity = (0, 0),
      isOnHill = False, jsonData = j, visibleTiles = [], visibleSprites = [], restingTime = 0,
      lastTile = None, age = 0, isCaptured = False, group = g, hasChip = False,
      isWandering = False, targetNeed = NeedNone, foodLevel = 100, hydrationLevel = 100,
      seenFoodPositions = [], seenWaterPositions = [], passengers = [], path = []\<rparr>"

text \<open>
  \<^verbatim>\<open>spawnPoacher\<close> up to \<^verbatim>\<open>await poacher.load()\<close>: the poacher is constructed, and the
  rest (\<^verbatim>\<open>load\<close>, \<^verbatim>\<open>addSprite\<close>) is deferred.
\<close>

definition spawnPoacher ::
  "assets \<Rightarrow> real \<Rightarrow> safari_map \<times> (nat \<Rightarrow> real) \<Rightarrow> safari_map \<times> (nat \<Rightarrow> real)" where
  "spawnPoacher a dt mg =
     (let m1 = (fst mg)\<lparr>poacherTimer := poacherTimer (fst mg) + dt\<rparr>;
          g = snd mg;
          g1 = advanceRng g
      in if poacherTimer m1 \<ge> 720 * (g 0 * (2 - 1) + 1) then
           let x = \<lfloor>g1 0 * real_of_int (width m1)\<rfloor>;
               y = \<lfloor>g1 1 * real_of_int (height m1)\<rfloor>;
               poacher = newSprite Poacher ''safari:poacher'' (uuid m1)
                           (real_of_int x, real_of_int y) 0 (poacherJson a)
           in (m1\<lparr>poacherTimer := 0, uuid := Suc (uuid m1),
                   pending := pending m1 @ [LoadAndAdd poacher]\<rparr>,
               advanceRng (advanceRng g1))
         else (m1, g1))"

text \<open>
  What a deferred continuation does when its \<^verbatim>\<open>load()\<close> has completed: \<^verbatim>\<open>Sprite.load\<close>
  ends by emitting \<^verbatim>\<open>updateVisiblesSignal\<close>, then the sprite is added.
\<close>

definition runDeferred :: "deferred \<Rightarrow> safari_map \<Rightarrow> safari_map" where
  "runDeferred d m =
     (case d of
        PlaceTile t \<Rightarrow> placeTile t m
      | LoadAndAdd s \<Rightarrow>
          addSprite (regNumber s)
            (onUpdateVisibles (regNumber s) False (m\<lparr>objs := (objs m)(regNumber s \<mapsto> s)\<rparr>)))"

text \<open>
  Lines 345 to 354 of \<^verbatim>\<open>tick\<close>: the start of a tour. \<^verbatim>\<open>Jeep.choosePath\<close> spreads
  \<^verbatim>\<open>paths[Math.floor(Math.random() * n)]\<close>, which throws when that is \<^verbatim>\<open>undefined\<close>; the
  state reached is returned with the exception.
\<close>

definition startTour ::
  "safari_map \<times> (nat \<Rightarrow> real) \<Rightarrow> safari_map \<times> (nat \<Rightarrow> real) \<times> error option" where
  "startTour mg =
     (let m = fst mg; g = snd mg
      in if length (waitingVisitors m) \<ge> 4 then
           (case waitingJeeps m of
              [] \<Rightarrow> (m, g, None)
            | jeep # rest \<Rightarrow>
                let m1 = addSprite jeep (m\<lparr>waitingJeeps := rest\<rparr>);
                    m2 = modify jeep (\<lambda>s. s\<lparr>passengers := passengers s @ take 4 (waitingVisitors m1)\<rparr>)
                           (m1\<lparr>waitingVisitors := drop 4 (waitingVisitors m1)\<rparr>);
                    r = \<lfloor>g 0 * real (length (paths m2))\<rfloor>
                in if 0 \<le> r \<and> nat r < length (paths m2) then
                     ((modify jeep (\<lambda>s. s\<lparr>path := paths m2 ! nat r\<rparr>) m2)
                        \<lparr>emitted := emitted m2 @ [TourStart]\<rparr>,
                      advanceRng g, None)
                   else (m2, advanceRng g, Some TypeError))
         else (m, g, None))"

definition ageCache :: "real \<Rightarrow> cache_entry list \<Rightarrow> cache_entry list" where
  "ageCache dt c = filter (\<lambda>v. c_time v < 1) (map (\<lambda>v. v\<lparr>c_time := c_time v + dt\<rparr>) c)"

text \<open>\<^verbatim>\<open>Map.tick(dt, isOpen)\<close>.\<close>

definition tick ::
  "assets \<Rightarrow> behaviour \<Rightarrow> real \<Rightarrow> bool \<Rightarrow> safari_map \<times> (nat \<Rightarrow> real)
     \<Rightarrow> safari_map \<times> (nat \<Rightarrow> real) \<times> error option" where
  "tick a beh dt isOpen mg =
     (let m = fst mg;
          m1 = m\<lparr>emitted := emitted m @ map (\<lambda>j. TourRatings (getRatings m j)) (jeepsAtExit m)\<rparr>;
          m2 = m1\<lparr>visiblesCache := ageCache dt (visiblesCache m1)\<rparr>;
          m3 = forEachAct a beh dt (sprites m2) 0 (length (arrays m2 (sprites m2))) m2;
          mg4 = generatePlants a dt (m3, snd mg);
          mg5 = spawnPoacher a dt mg4
      in if \<not> isOpen then (fst mg5, snd mg5, None) else startTour mg5)"





section \<open>Road planning\<close>

definition roadKind :: "tile \<Rightarrow> bool" where
  "roadKind t = (tclass t = Road \<or> tclass t = Entrance \<or> tclass t = Exit)"

text \<open>
  \<^verbatim>\<open>Map.neighbors(road)\<close>: the two loops over \<^verbatim>\<open>dx\<close> and \<^verbatim>\<open>dy\<close> from -1 to 1;
  \<open>roadAt\<close> is what the body of the inner loop pushes for the cell \<open>(nx, ny)\<close>.
\<close>

definition roadAt :: "safari_map \<Rightarrow> int \<Rightarrow> int \<Rightarrow> tile list" where
  "roadAt m nx ny =
     (if nx \<ge> 0 \<and> nx < width m \<and> ny \<ge> 0 \<and> ny < height m then
        (let neighbor = tileAt m nx ny
         in if roadKind neighbor then [neighbor] else [])
      else [])"

definition neighbors :: "safari_map \<Rightarrow> tile \<Rightarrow> tile list" where
  "neighbors m road =
     concat (map (\<lambda>dx. concat (map (\<lambda>dy.
         if \<bar>dx\<bar> \<noteq> \<bar>dy\<bar> then roadAt m (fst (tpos road) + dx) (snd (tpos road) + dy) else [])
       [-1, 0, 1])) [-1, 0, 1])"

text \<open>
  \<^verbatim>\<open>Map.dfs(current, path, visited)\<close>. The source keeps one mutable set \<^verbatim>\<open>visited\<close>,
  adds the position of \<^verbatim>\<open>current\<close> before the loop over the neighbours and deletes it
  after, so every call returns with the set as it found it and every neighbour is
  tested against the set of the caller with \<^verbatim>\<open>current\<close> added; the model passes that
  set down. The set holds position arrays by reference, one per tile object; the model
  holds the positions. The result is the list of paths the call pushes onto
  \<^verbatim>\<open>this._paths\<close>, in order.
\<close>

function dfs :: "safari_map \<Rightarrow> tile \<Rightarrow> tile list \<Rightarrow> (int \<times> int) list \<Rightarrow> tile list list" where
  "dfs m current pth visited =
     (if tclass current = Exit then [pth @ [current]]
      else concat (map (\<lambda>neighbor. dfs m neighbor (pth @ [current]) (tpos current # visited))
                     (filter (\<lambda>neighbor. tpos neighbor \<notin> set (tpos current # visited))
                        (neighbors m current))))"
  by pat_completeness auto

lemma neighbors_eq:
  "neighbors m c =
     roadAt m (fst (tpos c) - 1) (snd (tpos c)) @ roadAt m (fst (tpos c)) (snd (tpos c) - 1)
     @ roadAt m (fst (tpos c)) (snd (tpos c) + 1) @ roadAt m (fst (tpos c) + 1) (snd (tpos c))"
  by (simp add: neighbors_def)

lemma roadAt_iff:
  "n \<in> set (roadAt m nx ny) \<longleftrightarrow> inBounds m nx ny \<and> n = tileAt m nx ny \<and> roadKind n"
  by (auto simp: roadAt_def inBounds_def Let_def)

lemma neighbors_iff:
  "n \<in> set (neighbors m c) \<longleftrightarrow>
     (\<exists>nx ny. \<bar>nx - fst (tpos c)\<bar> + \<bar>ny - snd (tpos c)\<bar> = 1
        \<and> inBounds m nx ny \<and> n = tileAt m nx ny \<and> roadKind n)"
proof
  assume "n \<in> set (neighbors m c)"
  then consider "inBounds m (fst (tpos c) - 1) (snd (tpos c))" "n = tileAt m (fst (tpos c) - 1) (snd (tpos c))" "roadKind n"
    | "inBounds m (fst (tpos c)) (snd (tpos c) - 1)" "n = tileAt m (fst (tpos c)) (snd (tpos c) - 1)" "roadKind n"
    | "inBounds m (fst (tpos c)) (snd (tpos c) + 1)" "n = tileAt m (fst (tpos c)) (snd (tpos c) + 1)" "roadKind n"
    | "inBounds m (fst (tpos c) + 1) (snd (tpos c))" "n = tileAt m (fst (tpos c) + 1) (snd (tpos c))" "roadKind n"
    unfolding neighbors_eq by (auto simp: roadAt_iff)
  then show "\<exists>nx ny. \<bar>nx - fst (tpos c)\<bar> + \<bar>ny - snd (tpos c)\<bar> = 1
        \<and> inBounds m nx ny \<and> n = tileAt m nx ny \<and> roadKind n"
  proof cases
    case 1 then show ?thesis by (intro exI[of _ "fst (tpos c) - 1"] exI[of _ "snd (tpos c)"]) simp
  next
    case 2 then show ?thesis by (intro exI[of _ "fst (tpos c)"] exI[of _ "snd (tpos c) - 1"]) simp
  next
    case 3 then show ?thesis by (intro exI[of _ "fst (tpos c)"] exI[of _ "snd (tpos c) + 1"]) simp
  next
    case 4 then show ?thesis by (intro exI[of _ "fst (tpos c) + 1"] exI[of _ "snd (tpos c)"]) simp
  qed
next
  assume "\<exists>nx ny. \<bar>nx - fst (tpos c)\<bar> + \<bar>ny - snd (tpos c)\<bar> = 1
        \<and> inBounds m nx ny \<and> n = tileAt m nx ny \<and> roadKind n"
  then obtain nx ny where d: "\<bar>nx - fst (tpos c)\<bar> + \<bar>ny - snd (tpos c)\<bar> = 1"
    and r: "inBounds m nx ny" "n = tileAt m nx ny" "roadKind n" by blast
  from d consider "nx = fst (tpos c) - 1" "ny = snd (tpos c)" | "nx = fst (tpos c)" "ny = snd (tpos c) - 1"
    | "nx = fst (tpos c)" "ny = snd (tpos c) + 1" | "nx = fst (tpos c) + 1" "ny = snd (tpos c)"
    by linarith
  then show "n \<in> set (neighbors m c)"
    using r unfolding neighbors_eq by cases (simp_all add: roadAt_iff)
qed

lemma neighbors_in_grid:
  "n \<in> set (neighbors m c) \<Longrightarrow> \<exists>x y. inBounds m x y \<and> n = tileAt m x y"
  unfolding neighbors_iff by blast

lemma finite_grid: "finite {tileAt m x y | x y. inBounds m x y}"
proof -
  have "{tileAt m x y | x y. inBounds m x y}
        \<subseteq> (\<lambda>(x, y). tileAt m x y) ` ({0 ..< width m} \<times> {0 ..< height m})"
    by (auto simp: inBounds_def)
  then show ?thesis by (rule finite_subset) simp
qed

termination dfs
proof (relation "measure (\<lambda>(m, current, pth, visited).
          card (tpos ` {tileAt m x y | x y. inBounds m x y} - set visited - {tpos current}))")
  show "wf (measure (\<lambda>(m, current, pth, visited).
          card (tpos ` {tileAt m x y | x y. inBounds m x y} - set visited - {tpos current})))"
    by simp
next
  fix m :: safari_map and current :: tile and pth :: "tile list" and visited :: "(int \<times> int) list"
    and n :: tile
  assume n: "n \<in> set (filter (\<lambda>neighbor. tpos neighbor \<notin> set (tpos current # visited))
                       (neighbors m current))"
  let ?P = "tpos ` {tileAt m x y | x y. inBounds m x y}"
  let ?A = "?P - set visited - {tpos current}"
  from n have "n \<in> set (neighbors m current)" and out: "tpos n \<notin> set (tpos current # visited)"
    by simp_all
  then have "tpos n \<in> ?P" using neighbors_in_grid by blast
  with out have mem: "tpos n \<in> ?A" by simp
  have fin: "finite ?A" using finite_grid by simp
  have "?P - set (tpos current # visited) - {tpos n} = ?A - {tpos n}" by auto
  then have "card (?P - set (tpos current # visited) - {tpos n}) < card ?A"
    using card_Diff1_less[OF fin mem] by simp
  then show "((m, n, pth @ [current], tpos current # visited), (m, current, pth, visited))
        \<in> measure (\<lambda>(m, current, pth, visited).
              card (tpos ` {tileAt m x y | x y. inBounds m x y} - set visited - {tpos current}))"
    by simp
qed

declare dfs.simps [simp del]

text \<open>
  \<^verbatim>\<open>planRoads()\<close>. \<^verbatim>\<open>this._tiles[0][0]\<close> of a grid without that cell is \<^verbatim>\<open>undefined\<close>,
  whose position \<^verbatim>\<open>dfs\<close> cannot read.
\<close>

definition planRoads :: "safari_map \<Rightarrow> error + (safari_map \<times> bool)" where
  "planRoads m =
     (case getTileAt m 0 0 of
        Inl err \<Rightarrow> Inl err
      | Inr start \<Rightarrow> (let ps = dfs m start [] [] in Inr (m\<lparr>paths := ps\<rparr>, length ps > 0)))"

text \<open>
  What the claim about \<^verbatim>\<open>planRoads\<close> speaks of. Two cells are adjacent when they differ
  by one step along one axis. A trail is a list of cells without repetition, outside a
  given set, each adjacent to the next, all but the first in the grid and holding a
  road, entrance or exit tile, and the last holding the exit tile. A grid is well formed
  when it has \<open>width\<close> columns of \<open>height\<close> tiles and every tile records the position of
  its cell, as \<^verbatim>\<open>loadMap\<close> and \<^verbatim>\<open>placeTile\<close> leave it.
\<close>

definition adjacent :: "int \<times> int \<Rightarrow> int \<times> int \<Rightarrow> bool" where
  "adjacent c d = (\<bar>fst d - fst c\<bar> + \<bar>snd d - snd c\<bar> = 1)"

fun chain :: "(int \<times> int) list \<Rightarrow> bool" where
  "chain [] = True"
| "chain [c] = True"
| "chain (c # d # cs) = (adjacent c d \<and> chain (d # cs))"

definition roadCell :: "safari_map \<Rightarrow> int \<times> int \<Rightarrow> bool" where
  "roadCell m c = (inBounds m (fst c) (snd c) \<and> roadKind (tileAt m (fst c) (snd c)))"

definition exitCell :: "safari_map \<Rightarrow> int \<times> int \<Rightarrow> bool" where
  "exitCell m c = (tclass (tileAt m (fst c) (snd c)) = Exit)"

definition trail :: "safari_map \<Rightarrow> (int \<times> int) list \<Rightarrow> (int \<times> int) list \<Rightarrow> bool" where
  "trail m visited cs =
     (cs \<noteq> [] \<and> distinct cs \<and> list_all (\<lambda>c. c \<notin> set visited) cs \<and> chain cs
      \<and> list_all (roadCell m) (tl cs) \<and> exitCell m (last cs))"

definition roadPath :: "safari_map \<Rightarrow> (int \<times> int) list \<Rightarrow> bool" where
  "roadPath m cs = trail m [] cs"

definition gridOk :: "safari_map \<Rightarrow> bool" where
  "gridOk m =
     (length (tiles m) = nat (width m)
      \<and> list_all (\<lambda>x. length (tiles m ! x) = nat (height m)
                      \<and> list_all (\<lambda>y. tpos (tiles m ! x ! y) = (int x, int y)) [0 ..< nat (height m)])
          [0 ..< nat (width m)])"

section \<open>The simulation model\<close>

record goal =
  goal_balance :: real
  goal_herbivores :: real
  goal_carnivores :: real
  goal_visitors :: real
  goal_forDays :: real

text \<open>
  \<^verbatim>\<open>SafariModel\<close> (\<^verbatim>\<open>safariModel.ts\<close>). \<open>signals\<close> collects the signals the model emits
  (\<^verbatim>\<open>goalMetSignal\<close>, \<^verbatim>\<open>losingSignal\<close>).
\<close>

record safari_model =
  smap :: safari_map
  goalOf :: goal
  rating :: real
  gameSpeed :: real
  balance :: real
  entryFee :: real
  isOpen :: bool
  time :: real
  timer :: real
  daysGoalMet :: real
  lastGoalCheckDay :: int
  selectedRanger :: "nat option"
  signals :: "signal list"

text \<open>The setter of \<^verbatim>\<open>isOpen\<close>.\<close>

definition setIsOpen :: "bool \<Rightarrow> safari_model \<Rightarrow> error + safari_model" where
  "setIsOpen v md =
     (if v then
        (case planRoads (smap md) of
           Inl err \<Rightarrow> Inl err
         | Inr (m1, found) \<Rightarrow>
             if \<not> found then Inr (md\<lparr>smap := m1\<rparr>) else Inr (md\<lparr>smap := m1, isOpen := v\<rparr>))
      else Inr (md\<lparr>isOpen := v\<rparr>))"

definition getRangerSalary :: "safari_map \<Rightarrow> real" where
  "getRangerSalary m =
     fold (\<lambda>s total. total + salary (jsonData s))
       (filter (\<lambda>s. sclass s = Ranger) (List.map_filter (objs m) (spriteList m))) 0"

definition getHerbivoreCount :: "assets \<Rightarrow> safari_map \<Rightarrow> nat" where
  "getHerbivoreCount a m =
     length (filter (\<lambda>s. herbivoreRegistry a (sid s) \<noteq> None)
               (List.map_filter (objs m) (spriteList m)))"

definition getCarnivoreCount :: "assets \<Rightarrow> safari_map \<Rightarrow> nat" where
  "getCarnivoreCount a m =
     length (filter (\<lambda>s. carnivoreRegistry a (sid s) \<noteq> None)
               (List.map_filter (objs m) (spriteList m)))"

definition goalsMet :: "assets \<Rightarrow> safari_model \<Rightarrow> bool" where
  "goalsMet a md =
     (balance md \<ge> goal_balance (goalOf md)
      \<and> real (getHerbivoreCount a (smap md)) \<ge> goal_herbivores (goalOf md)
      \<and> real (getCarnivoreCount a (smap md)) \<ge> goal_carnivores (goalOf md)
      \<and> totalVisitorCount (smap md) \<ge> goal_visitors (goalOf md))"

text \<open>\<^verbatim>\<open>checkGoalsMet()\<close>; \<open>goalsMet\<close> is the condition of its inner \<^verbatim>\<open>if\<close>.\<close>

definition checkGoalsMet :: "assets \<Rightarrow> safari_model \<Rightarrow> safari_model" where
  "checkGoalsMet a md =
     (let currentDay = \<lfloor>time md / 1440\<rfloor>
      in if time md \<ge> 1440 \<and> lastGoalCheckDay md \<noteq> currentDay then
           let totalSalary = getRangerSalary (smap md);
               md1 = md\<lparr>balance := max (balance md - totalSalary) 0\<rparr>;
               md2 = (if goalsMet a md1 then
                        (let md3 = md1\<lparr>daysGoalMet := daysGoalMet md1 + 1\<rparr>
                         in if daysGoalMet md3 \<ge> goal_forDays (goalOf md3)
                            then md3\<lparr>signals := signals md3 @ [GoalMet]\<rparr> else md3)
                      else md1\<lparr>daysGoalMet := 0\<rparr>)
           in md2\<lparr>lastGoalCheckDay := currentDay\<rparr>
         else md)"

text \<open>\<^verbatim>\<open>buy(item)\<close>, by the price of the item.\<close>

definition buy :: "real \<Rightarrow> safari_model \<Rightarrow> bool \<times> safari_model" where
  "buy price md =
     (if price > balance md then (False, md) else (True, md\<lparr>balance := balance md - price\<rparr>))"

text \<open>
  The purchases are \<^verbatim>\<open>async\<close>; each is modelled as run to its end without another
  method in between. \<open>construct\<close> is \<^verbatim>\<open>new\<close> (the constructor takes the next registration
  number), and \<open>load\<close> is \<^verbatim>\<open>Sprite.load\<close>, which ends by emitting
  \<^verbatim>\<open>updateVisiblesSignal\<close> to the listener of the map. \<^verbatim>\<open>Tile.load\<close> emits nothing.
\<close>

definition construct :: "sprite \<Rightarrow> safari_map \<Rightarrow> safari_map" where
  "construct s m = m\<lparr>objs := (objs m)(uuid m \<mapsto> s\<lparr>regNumber := uuid m\<rparr>), uuid := Suc (uuid m)\<rparr>"

definition load :: "nat \<Rightarrow> safari_map \<Rightarrow> safari_map" where
  "load r m = onUpdateVisibles r False m"

definition buyTile :: "assets \<Rightarrow> string \<Rightarrow> int \<Rightarrow> int \<Rightarrow> safari_model \<Rightarrow> error + safari_model" where
  "buyTile a tileId x y md =
     (case createTile a tileId x y of
        None \<Rightarrow> Inr md
      | Some t \<Rightarrow>
          if tclass t = Entrance \<or> tclass t = Exit then Inr md
          else if tclass t = Road \<and> isOpen md then Inr md
          else
            (case getTileAt (smap md) x y of
               Inl err \<Rightarrow> Inl err
             | Inr oldTile \<Rightarrow>
                 if tclass oldTile = Entrance \<or> tclass oldTile = Exit then Inr md
                 else if tclass oldTile = Road \<and> isOpen md then Inr md
                 else if tid oldTile \<noteq> tid t then
                   (case buy (tile_buyPrice t) md of
                      (True, md1) \<Rightarrow> Inr (md1\<lparr>smap := placeTile t (smap md1)\<rparr>)
                    | (False, md1) \<Rightarrow> Inr md1)
                 else Inr md))"

definition buyJeep :: "assets \<Rightarrow> safari_model \<Rightarrow> safari_model" where
  "buyJeep a md =
     (let r = uuid (smap md);
          md1 = md\<lparr>smap := load r (construct (newSprite Jeep ''safari:jeep'' r (0, 0) 0 (jeepJson a))
                                     (smap md))\<rparr>
      in case buy (buyPrice (jeepJson a)) md1 of
           (True, md2) \<Rightarrow> md2\<lparr>smap := addNewJeep r (smap md2)\<rparr>
         | (False, md2) \<Rightarrow> md2)"

definition buyRanger :: "assets \<Rightarrow> real \<Rightarrow> real \<Rightarrow> safari_model \<Rightarrow> safari_model" where
  "buyRanger a x y md =
     (let r = uuid (smap md);
          md1 = md\<lparr>smap := load r (construct (newSprite Ranger ''safari:ranger'' r (x, y) 0 (rangerJson a))
                                     (smap md))\<rparr>
      in case buy (buyPrice (rangerJson a)) md1 of
           (True, md2) \<Rightarrow> md2\<lparr>smap := addSprite r (smap md2)\<rparr>
         | (False, md2) \<Rightarrow> md2)"

text \<open>
  The loop \<^verbatim>\<open>do { groupID = Math.floor(Math.random() * 1000000) } while (taken)\<close> of the
  animal purchases ends only when a free number is drawn.
\<close>

partial_function (option) pickGroup ::
  "(int \<times> string) list \<Rightarrow> (nat \<Rightarrow> real) \<Rightarrow> (int \<times> (nat \<Rightarrow> real)) option" where
  "pickGroup gs g =
     (let groupID = \<lfloor>g 0 * 1000000\<rfloor>
      in if groupID \<in> fst ` set gs then pickGroup gs (advanceRng g)
         else Some (groupID, advanceRng g))"

text \<open>
  \<^verbatim>\<open>buyHerbivore\<close> and \<^verbatim>\<open>buyCarnivore\<close> differ in the registry and the class only.
\<close>

definition buyAnimal ::
  "sprite_class \<Rightarrow> sprite_json option \<Rightarrow> string \<Rightarrow> real \<Rightarrow> real
     \<Rightarrow> safari_model \<times> (nat \<Rightarrow> real) \<Rightarrow> (safari_model \<times> (nat \<Rightarrow> real)) option" where
  "buyAnimal c registered i x y mdg =
     (case registered of
        None \<Rightarrow> Some mdg
      | Some j \<Rightarrow>
          let md = fst mdg;
              r = uuid (smap md);
              md1 = md\<lparr>smap := load r (construct (newSprite c i r (x, y) 0 j) (smap md))\<rparr>
          in case buy (buyPrice j) md1 of
               (False, md2) \<Rightarrow> Some (md2, snd mdg)
             | (True, md2) \<Rightarrow>
                 let m = smap md2;
                     sameIdSprite = find (\<lambda>other. case objs m other of None \<Rightarrow> False
                                                | Some os \<Rightarrow> isAnimal os \<and> sid os = i)
                                      (getVisibleSprites m r)
                 in Option.bind
                      (case Option.bind sameIdSprite (objs m) of
                         Some os \<Rightarrow> Some (group os, snd mdg)
                       | None \<Rightarrow> pickGroup (groups m) (snd mdg))
                      (\<lambda>(groupID, g1).
                         let m1 = modify r (\<lambda>s. s\<lparr>group := groupID\<rparr>) m;
                             m2 = addSprite r (addGroup groupID i m1)
                         in Some ((md2\<lparr>smap := m2\<rparr>), g1)))"

definition buyHerbivore ::
  "assets \<Rightarrow> string \<Rightarrow> real \<Rightarrow> real \<Rightarrow> safari_model \<times> (nat \<Rightarrow> real)
     \<Rightarrow> (safari_model \<times> (nat \<Rightarrow> real)) option" where
  "buyHerbivore a i x y mdg = buyAnimal Herbivore (herbivoreRegistry a i) i x y mdg"

definition buyCarnivore ::
  "assets \<Rightarrow> string \<Rightarrow> real \<Rightarrow> real \<Rightarrow> safari_model \<times> (nat \<Rightarrow> real)
     \<Rightarrow> (safari_model \<times> (nat \<Rightarrow> real)) option" where
  "buyCarnivore a i x y mdg = buyAnimal Carnivore (carnivoreRegistry a i) i x y mdg"

text \<open>
  What a rejected purchase may leave behind: the object it constructed, under the next
  registration number, and what the listener of the map did to the cache of visible
  things. Everything else is as before: the balance, the tiles, the sprites on the map,
  the waiting jeeps, the groups, and every object that existed.
\<close>

definition untouched :: "safari_model \<Rightarrow> safari_model \<Rightarrow> bool" where
  "untouched md md' =
     (md' = md\<lparr>smap := (smap md)\<lparr>
               objs := (objs (smap md))(uuid (smap md) := objs (smap md') (uuid (smap md))),
               uuid := uuid (smap md'),
               visiblesCache := visiblesCache (smap md')\<rparr>\<rparr>)"


text \<open>The jeeps for which \<^verbatim>\<open>tourFinishedSignal\<close> was emitted, in a log of signals.\<close>

definition toursEnded :: "signal list \<Rightarrow> nat list" where
  "toursEnded sgs = concat (map (\<lambda>sg. case sg of TourFinished k \<Rightarrow> [k] | _ \<Rightarrow> []) sgs)"

text \<open>
  What the calls of \<open>act\<close> leave of the queues and of a waiting jeep \<open>j\<close>: the jeeps whose
  tour ended since \<open>m0\<close> are behind those that waited.
\<close>

definition queuesKept :: "nat \<Rightarrow> visitor list \<Rightarrow> safari_map \<Rightarrow> safari_map \<Rightarrow> bool" where
  "queuesKept j ps m0 m =
     (waitingVisitors m = waitingVisitors m0 \<and> paths m = paths m0
      \<and> (\<exists>new. emitted m = emitted m0 @ new \<and> waitingJeeps m = waitingJeeps m0 @ toursEnded new)
      \<and> (\<exists>sj. objs m j = Some sj \<and> passengers sj = ps))"

text \<open>
  What \<^verbatim>\<open>forEach\<close> relies on while it runs over the array at address \<open>arr\<close>, of which it
  has seen the elements \<open>xs\<close>: the array is still allocated and still begins with them.
\<close>

definition stable :: "nat \<Rightarrow> nat list \<Rightarrow> safari_map \<Rightarrow> bool" where
  "stable arr xs m = (arr < nextArray m \<and> sprites m < nextArray m
                      \<and> take (length xs) (arrays m arr) = xs)"


section \<open>Example states\<close>

definition plainTile :: "tile_class \<Rightarrow> string \<Rightarrow> int \<Rightarrow> int \<Rightarrow> tile" where
  "plainTile c i x y = \<lparr>tclass = c, tid = i, tpos = (x, y), tile_buyPrice = 100,
     isObstacle = False, isEdible = False, isWater = False, isAlwaysVisible = False,
     fallbackTile = ''safari:sand''\<rparr>"

definition sandTile :: "int \<Rightarrow> int \<Rightarrow> tile" where
  "sandTile x y = plainTile Sand ''safari:sand'' x y"

definition roadTile :: "int \<Rightarrow> int \<Rightarrow> tile" where
  "roadTile x y = plainTile Road ''safari:road'' x y"

definition plainJson :: sprite_json where
  "plainJson = \<lparr>speed = 10, spriteSize = 1, baseViewDistance = 1, buyPrice = 100, chipPrice = 10,
     salary = 50\<rparr>"

definition someAssets :: assets where
  "someAssets = \<lparr>tileRegistry = (\<lambda>i. if i = ''safari:road'' then Some (roadTile 0 0) else None),
     herbivoreRegistry = (\<lambda>i. if i = ''safari:zebra'' then Some plainJson else None),
     carnivoreRegistry = (\<lambda>i. None),
     jeepJson = plainJson, rangerJson = plainJson, poacherJson = plainJson\<rparr>"

text \<open>A map of three cells in a row: entrance, road, exit, with the one path planned.\<close>

definition rowTiles :: "tile list list" where
  "rowTiles = [[plainTile Entrance ''safari:entrance'' 0 0], [roadTile 1 0],
               [plainTile Exit ''safari:exit'' 2 0]]"

definition rowMap :: safari_map where
  "rowMap = \<lparr>tiles = rowTiles, objs = (\<lambda>r. None), uuid = 0, arrays = (\<lambda>a. []), sprites = 0,
     nextArray = 1, width = 3, height = 1, groups = [], waitingJeeps = [], waitingVisitors = [],
     paths = [map hd rowTiles], totalVisitorCount = 0, plantTimer = 0, poacherTimer = 0,
     visiblesCache = [], pending = [], emitted = [], acted = []\<rparr>"

definition guest :: visitor where
  "guest = \<lparr>wantsRating = 1, willingToPay = 5000, wantsToSeeCarnivores = 0,
     wantsToSeeHerbivores = 0, seenAnimals = []\<rparr>"

definition jeepAt :: "nat \<Rightarrow> real \<times> real \<Rightarrow> sprite" where
  "jeepAt n p = newSprite Jeep ''safari:jeep'' n p 0 plainJson"

text \<open>
  Four queued visitors, jeep 1 waiting, and jeep 0 on the map at the exit with its path
  used up: its next \<^verbatim>\<open>act\<close> ends its tour.
\<close>

definition tourMap :: safari_map where
  "tourMap = rowMap\<lparr>objs := (\<lambda>r. if r = 0 then Some (jeepAt 0 (2, 0))
                               else if r = 1 then Some (jeepAt 1 (0, 0)) else None),
     uuid := 2, arrays := (\<lambda>a. if a = 0 then [0] else []),
     waitingJeeps := [1], waitingVisitors := [guest, guest, guest, guest]\<rparr>"


definition halves :: "nat \<Rightarrow> real" where
  "halves n = 1 / 2"

text \<open>Three sprites on the map; the \<^verbatim>\<open>act\<close> of sprite 0 kills sprite 1 and adds sprite 7.\<close>

definition threeMap :: safari_map where
  "threeMap = rowMap\<lparr>arrays := (\<lambda>a. if a = 0 then [0, 1, 2] else [])\<rparr>"

definition culling :: behaviour where
  "culling x t m = (if x = 0 then [Emit (AnimalDead 1), CallAddSprite 7] else [])"

definition idle :: behaviour where
  "idle x t m = []"


text \<open>
  Five cells in a row with a hill in the middle, and a zebra of view distance 1 standing
  on the hill, which makes its view distance 1.5.
\<close>

definition stripMap :: safari_map where
  "stripMap = rowMap\<lparr>tiles := [[sandTile 0 0], [sandTile 1 0], [plainTile OtherTile ''safari:hill'' 2 0],
                               [sandTile 3 0], [sandTile 4 0]],
     width := 5, paths := []\<rparr>"

definition hillZebra :: sprite where
  "hillZebra = zebra\<lparr>position := (2, 0), pathTo := None, isOnHill := True,
     jsonData := (jsonData zebra)\<lparr>baseViewDistance := 1\<rparr>\<rparr>"

text \<open>The row with sand in the middle, and models with the two rows.\<close>

definition gapMap :: safari_map where
  "gapMap = rowMap\<lparr>tiles := [[plainTile Entrance ''safari:entrance'' 0 0], [sandTile 1 0],
                             [plainTile Exit ''safari:exit'' 2 0]], paths := []\<rparr>"

definition modelOf :: "safari_map \<Rightarrow> safari_model" where
  "modelOf m = \<lparr>smap = m,
     goalOf = \<lparr>goal_balance = 1000, goal_herbivores = 0, goal_carnivores = 0, goal_visitors = 0,
               goal_forDays = 2\<rparr>,
     rating = 3, gameSpeed = 1, balance = 10000, entryFee = 1000, isOpen = False, time = 0,
     timer = 0, daysGoalMet = 0, lastGoalCheckDay = - 1, selectedRanger = None, signals = []\<rparr>"

text \<open>The row with a ranger on the road, salary 50, and its model at minute 1500.\<close>

definition rangerMap :: safari_map where
  "rangerMap = rowMap\<lparr>objs := (\<lambda>r. if r = 0 then Some (newSprite Ranger ''safari:ranger'' 0 (1, 0) 0 plainJson)
                                 else None),
     uuid := 1, arrays := (\<lambda>a. if a = 0 then [0] else [])\<rparr>"

definition secondDay :: safari_model where
  "secondDay = (modelOf rangerMap)\<lparr>time := 1500\<rparr>"

text \<open>
  A model of the row with sand in the middle and a balance of 50, below every price of
  \<open>someAssets\<close>.
\<close>

definition poorModel :: safari_model where
  "poorModel = (modelOf gapMap)\<lparr>balance := 50\<rparr>"

section \<open>Movement and resting\<close>

lemma emit_fields [simp]:
  "position (emitUpdateVisibles b i s) = position s"
  "velocity (emitUpdateVisibles b i s) = velocity s"
  "pathTo (emitUpdateVisibles b i s) = pathTo s"
  "isCaptured (emitUpdateVisibles b i s) = isCaptured s"
  "foodLevel (emitUpdateVisibles b i s) = foodLevel s"
  "hydrationLevel (emitUpdateVisibles b i s) = hydrationLevel s"
  "restingTime (emitUpdateVisibles b i s) = restingTime s"
  "regNumber (emitUpdateVisibles b i s) = regNumber s"
  by (auto simp: emitUpdateVisibles_def updateVisibles_def split: option.splits)

text \<open>
  C5, as the code has it. The step of \<^verbatim>\<open>move\<close> is the velocity times \<open>dt\<close> divided by 10
  (by 30 on an obstacle tile), so from (9,0) towards (10,0) the sprite lands exactly on
  (10,0) when speed times \<open>dt\<close> is at least 10, or at least 30 on an obstacle tile.
\<close>

theorem move_snaps_onto_target:
  assumes "position s = (9, 0)" and "pathTo s = Some (10, 0)"
    and "speed (jsonData s) * dt \<ge> (if onObstacle s then 30 else 10)"
  shows "\<exists>s'. move b dt x0 y0 x1 y1 s = Inr s' \<and> position s' = (10, 0)"
proof -
  let ?sp = "speed (jsonData s)"
  have "\<bar>?sp * dt / 30\<bar> \<ge> 1" if "onObstacle s" using assms(3) that by simp
  moreover have "\<bar>?sp * dt / 10\<bar> \<ge> 1" if "\<not> onObstacle s" using assms(3) that by simp
  ultimately show ?thesis
    using assms(1,2) by (auto simp: move_def Let_def onObstacle_def split: option.splits)
qed

theorem move_snaps_onto_target_witness:
  "\<exists>s'. move (\<lambda>s important. None) 1 (Fin 0) (Fin 0) (Fin 20) (Fin 20) zebra = Inr s'
        \<and> position s' = (10, 0)"
  using move_snaps_onto_target [of zebra 1 "\<lambda>s important. None" "Fin 0" "Fin 0" "Fin 20" "Fin 20"]
  by (simp add: zebra_def onObstacle_def)

text \<open>
  C5 as stated fails: with speed 1 and \<open>dt = 1\<close> (so speed times \<open>dt\<close> is 1) the sprite
  goes from (9,0) to (9.1,0), not to (10,0).
\<close>

theorem move_slow_counterexample:
  "speed (jsonData slowZebra) * 1 \<ge> 1 \<and> position slowZebra = (9, 0)
   \<and> pathTo slowZebra = Some (10, 0)
   \<and> map_sum id position (move (\<lambda>s important. None) 1 (Fin 0) (Fin 0) (Fin 20) (Fin 20) slowZebra)
       = Inr (91 / 10, 0)"
  by (simp add: slowZebra_def zebra_def move_def Let_def clamp_def)

text \<open>
  C6, as the code has it. An animal that is neither hungry nor thirsty after the ageing
  and decay of this call, with resting timer \<open>T > 0\<close>, keeps its position over
  \<^verbatim>\<open>act(dt)\<close> for \<open>0 \<le> dt < T\<close>, and its resting timer becomes \<open>T - dt\<close>.
\<close>

theorem resting_animal_stays:
  assumes "ageAndDecay dt st = Inr st2"
    and "\<not> isHungry (self st2)" and "\<not> isThirsty (self st2)"
    and "0 < restingTime (self st)" and "0 \<le> dt" and "dt < restingTime (self st)"
  shows "\<exists>st'. act e dt st = Inr st' \<and> position (self st') = position (self st)
               \<and> restingTime (self st') = restingTime (self st) - dt"
proof -
  have keep: "position (self st2) = position (self st)
              \<and> restingTime (self st2) = restingTime (self st)"
    using assms(1)
    by (auto simp: ageAndDecay_def updateHungerAndThirst_def updateState_def Let_def advance_def
             split: if_splits)
  have alive: "\<not> (foodLevel (self st2) \<le> 0 \<or> hydrationLevel (self st2) \<le> 0)"
    using assms(2,3) by (simp add: isHungry_def isThirsty_def)
  show ?thesis
    using assms keep alive
    by (simp add: act_def bindE_def isResting_def Let_def)
qed

theorem resting_animal_stays_witness:
  "\<exists>st'. act herbivoreAlone 1 \<lparr>self = restingZebra, rng = (\<lambda>n. 1 / 2), out = []\<rparr> = Inr st'
     \<and> position (self st') = (0, 0) \<and> restingTime (self st') = 1"
proof -
  let ?st = "\<lparr>self = restingZebra, rng = (\<lambda>n. 1 / 2), out = []\<rparr>"
  obtain st2 where "ageAndDecay 1 ?st = Inr st2"
    and "\<not> isHungry (self st2)" and "\<not> isThirsty (self st2)"
    by (simp add: restingZebra_def zebra_def ageAndDecay_def updateState_def
         updateHungerAndThirst_def Let_def random_def advance_def interpolateRange_def
         isHungry_def isThirsty_def)
  then show ?thesis
    using resting_animal_stays [of 1 ?st st2 herbivoreAlone]
    by (simp add: restingZebra_def zebra_def)
qed

text \<open>
  C6 as stated fails for a hungry animal: with food level 50, resting timer 2 and
  \<open>dt = 1\<close>, \<^verbatim>\<open>act\<close> resets the timer to 0 and moves the zebra from (0,0) onto the
  remembered food position (1,0).
\<close>

theorem hungry_animal_counterexample:
  "0 < restingTime hungryZebra \<and> (0::real) \<le> 1 \<and> 1 < restingTime hungryZebra
   \<and> position hungryZebra = (0, 0)
   \<and> map_sum id (\<lambda>st. (position (self st), restingTime (self st)))
       (act herbivoreAlone 1 \<lparr>self = hungryZebra, rng = (\<lambda>n. 1 / 2), out = []\<rparr>)
     = Inr ((1, 0), 0)"
  by (simp add: hungryZebra_def zebra_def act_def ageAndDecay_def bindE_def updateState_def
       updateHungerAndThirst_def Let_def random_def advance_def interpolateRange_def
       isHungry_def isThirsty_def herbivoreAlone_def emitUpdateVisibles_def
       herbivoreUpdateMemory_def updateFoodMemory_def updateWaterMemory_def isResting_def
       decideAction_def computeBounds_def chooseNeedTarget_def findClosest_def
       isAtDestination_def move_def)

section \<open>Captured animals\<close>

lemma move_carriedOff:
  "move b dt x0 y0 x1 y1 s = Inr s' \<Longrightarrow> carriedOff s \<Longrightarrow> carriedOff s' \<and> regNumber s' = regNumber s"
  by (auto simp: move_def Let_def carriedOff_def split: option.splits if_splits ext.splits prod.splits)

lemma move_error:
  "move b dt x0 y0 x1 y1 s = Inl err \<Longrightarrow> err = NonFinite"
  by (auto simp: move_def Let_def split: option.splits if_splits ext.splits prod.splits)


lemma decide_carriedOff:
  assumes c: "carriedOff (self st1)"
  shows "case decideAction e dt st1 of
           Inr st' \<Rightarrow> carriedOff (self st') \<and> rng st' = rng st1
              \<and> out st' = out st1 @ (if pathTo (self st1) \<noteq> None \<and> isAtDestination (1 / 2) (self st1)
                                     then [AnimalDead (regNumber (self st1))] else [])
         | Inl err \<Rightarrow> err = NonFinite"
proof -
  have fed: "\<not> isHungry (self st1)" "\<not> isThirsty (self st1)" "isCaptured (self st1)"
    using c by (simp_all add: carriedOff_def isHungry_def isThirsty_def)
  have cn: "chooseNeedTarget (self st1) = (self st1, None)"
    using fed by (simp add: chooseNeedTarget_def)
  define arrived where
    "arrived = (pathTo (self st1) \<noteq> None \<and> isAtDestination (1 / 2) (self st1))"
  define b where "b = computeBounds (visibleTiles (self st1))"
  have d: "decideAction e dt st1 =
      (if arrived then Inr (handleArrival e st1)
       else map_sum id (\<lambda>s. st1\<lparr>self := s\<rparr>)
              (move (bus e) dt (minX b) (minY b) (maxX b) (maxY b) (self st1)))"
    using cn fed unfolding b_def arrived_def by (simp add: decideAction_def bindE_def Let_def)
  show ?thesis
  proof (cases arrived)
    case True
    then have "pathTo (self st1) \<noteq> None" by (simp add: arrived_def)
    then show ?thesis
      using True d fed c unfolding arrived_def [symmetric]
      by (auto simp: handleArrival_def Let_def carriedOff_def split: option.splits)
  next
    case False
    show ?thesis
    proof (cases "move (bus e) dt (minX b) (minY b) (maxX b) (maxY b) (self st1)")
      case (Inl err)
      then show ?thesis using d False move_error[OF Inl] by simp
    next
      case (Inr s')
      then show ?thesis
        using d False move_carriedOff[OF Inr c] unfolding arrived_def [symmetric] by simp
    qed
  qed
qed

lemma act_carriedOff:
  assumes "carriedOff (self st)"
  shows "case act e dt st of
           Inr st' \<Rightarrow> carriedOff (self st') \<and> rng st' = rng st
              \<and> out st' = out st @ (if pathTo (self st) \<noteq> None \<and> isAtDestination (1 / 2) (self st)
                                     then [AnimalDead (regNumber (self st))] else [])
         | Inl err \<Rightarrow> err = NonFinite"
proof -
  define st1 where
    "st1 = st\<lparr>self := (updateState (self st))\<lparr>age := age (updateState (self st)) + dt / 1440\<rparr>\<rparr>"
  have c1: "carriedOff (self st1)" "pathTo (self st1) = pathTo (self st)"
    "position (self st1) = position (self st)" "regNumber (self st1) = regNumber (self st)"
    "rng st1 = rng st" "out st1 = out st"
    using assms by (simp_all add: st1_def carriedOff_def updateState_def)
  have a: "ageAndDecay dt st = Inr st1"
    using assms unfolding st1_def by (simp add: ageAndDecay_def Let_def carriedOff_def updateState_def)
  have fed: "\<not> isHungry (self st1)" "\<not> isThirsty (self st1)"
    "\<not> (foodLevel (self st1) \<le> 0 \<or> hydrationLevel (self st1) \<le> 0)" "restingTime (self st1) = 0"
    using c1 by (simp_all add: carriedOff_def isHungry_def isThirsty_def)
  have act_eq: "act e dt st = decideAction e dt st1"
    using a fed by (simp add: act_def bindE_def isResting_def Let_def)
  have at: "isAtDestination (1 / 2) (self st1) = isAtDestination (1 / 2) (self st)"
    using c1 by (simp add: isAtDestination_def split: option.splits)
  show ?thesis
    using decide_carriedOff[OF c1(1), of e dt] act_eq c1 at
    by (auto split: sum.splits)
qed

lemma acts_carriedOff:
  "carriedOff (self st) \<Longrightarrow> acts ticks st = Inr st' \<Longrightarrow> carriedOff (self st') \<and> rng st' = rng st"
proof (induction ticks arbitrary: st)
  case Nil
  then show ?case by simp
next
  case (Cons t ticks)
  obtain e dt where t: "t = (e, dt)" by (cases t)
  from Cons.prems(2) obtain st1 where s1: "act e dt st = Inr st1" and s2: "acts ticks st1 = Inr st'"
    by (auto simp: t bindE_def split: sum.splits)
  from act_carriedOff[OF Cons.prems(1), of e dt] s1 have "carriedOff (self st1)" "rng st1 = rng st" by simp_all
  with Cons.IH[OF _ s2] show ?case by simp
qed

lemma foldr_emin_Fin: "ts \<noteq> [] \<Longrightarrow> \<exists>m. foldr emin (map (\<lambda>t. Fin (f t)) ts) PosInf = Fin m"
proof (induction ts)
  case Nil then show ?case by simp
next
  case (Cons t ts)
  show ?case
  proof (cases "ts = []")
    case True then show ?thesis by simp
  next
    case False
    with Cons.IH obtain m where "foldr emin (map (\<lambda>t. Fin (f t)) ts) PosInf = Fin m" by blast
    then show ?thesis by simp
  qed
qed

lemma foldr_emax_Fin: "ts \<noteq> [] \<Longrightarrow> \<exists>m. foldr emax (map (\<lambda>t. Fin (f t)) ts) NegInf = Fin m"
proof (induction ts)
  case Nil then show ?case by simp
next
  case (Cons t ts)
  show ?case
  proof (cases "ts = []")
    case True then show ?thesis by simp
  next
    case False
    with Cons.IH obtain m where "foldr emax (map (\<lambda>t. Fin (f t)) ts) NegInf = Fin m" by blast
    then show ?thesis by simp
  qed
qed

lemma computeBounds_finite:
  assumes "ts \<noteq> []"
  shows "\<exists>a b c d. computeBounds ts = \<lparr>minX = Fin a, minY = Fin b, maxX = Fin c, maxY = Fin d\<rparr>"
  using foldr_emin_Fin[OF assms, of "\<lambda>t. real_of_int (fst (tpos t))"]
    foldr_emin_Fin[OF assms, of "\<lambda>t. real_of_int (snd (tpos t))"]
    foldr_emax_Fin[OF assms, of "\<lambda>t. real_of_int (fst (tpos t))"]
    foldr_emax_Fin[OF assms, of "\<lambda>t. real_of_int (snd (tpos t))"]
  by (auto simp: computeBounds_def Let_def)

lemma move_finite: "\<exists>s'. move b dt (Fin x0) (Fin y0) (Fin x1) (Fin y1) s = Inr s'"
  by (auto simp: move_def Let_def clamp_def split: option.splits)

lemma decide_carriedOff_total:
  assumes c: "carriedOff (self st1)" and v: "visibleTiles (self st1) \<noteq> []"
  shows "\<exists>st'. decideAction e dt st1 = Inr st'"
proof -
  have fed: "\<not> isHungry (self st1)" "\<not> isThirsty (self st1)" "isCaptured (self st1)"
    using c by (simp_all add: carriedOff_def isHungry_def isThirsty_def)
  have cn: "chooseNeedTarget (self st1) = (self st1, None)"
    using fed by (simp add: chooseNeedTarget_def)
  from computeBounds_finite[OF v] obtain x0 y0 x1 y1 where
    b: "computeBounds (visibleTiles (self st1)) = \<lparr>minX = Fin x0, minY = Fin y0, maxX = Fin x1, maxY = Fin y1\<rparr>"
    by blast
  from move_finite[of "bus e" dt x0 y0 x1 y1 "self st1"] obtain s' where
    "move (bus e) dt (Fin x0) (Fin y0) (Fin x1) (Fin y1) (self st1) = Inr s'" by blast
  then show ?thesis
    using cn fed b by (simp add: decideAction_def bindE_def Let_def)
qed

lemma act_carriedOff_total:
  assumes "carriedOff (self st)" and "visibleTiles (self st) \<noteq> []"
  shows "\<exists>st'. act e dt st = Inr st'"
proof -
  define st1 where
    "st1 = st\<lparr>self := (updateState (self st))\<lparr>age := age (updateState (self st)) + dt / 1440\<rparr>\<rparr>"
  have c1: "carriedOff (self st1)" "visibleTiles (self st1) \<noteq> []"
    using assms by (simp_all add: st1_def carriedOff_def updateState_def)
  have a: "ageAndDecay dt st = Inr st1"
    using assms unfolding st1_def by (simp add: ageAndDecay_def Let_def carriedOff_def updateState_def)
  have fed: "\<not> isHungry (self st1)" "\<not> isThirsty (self st1)"
    "\<not> (foodLevel (self st1) \<le> 0 \<or> hydrationLevel (self st1) \<le> 0)" "restingTime (self st1) = 0"
    using c1 by (simp_all add: carriedOff_def isHungry_def isThirsty_def)
  have act_eq: "act e dt st = decideAction e dt st1"
    using a fed by (simp add: act_def bindE_def isResting_def Let_def)
  show ?thesis using act_eq decide_carriedOff_total[OF c1] by simp
qed

text \<open>
  C10. \<^verbatim>\<open>capture(target)\<close> sets the captured flag, puts food and hydration at 100,
  clears the resting timer and retargets the animal. From such a state every \<^verbatim>\<open>act(dt)\<close>
  skips the decay (no random number is drawn), keeps the flag, both levels at 100 and
  the timer at 0, and emits the death of the animal only on arrival at its target,
  never for hunger or thirst; so it is after any number of calls. The only failure of
  the model is the non-finite position the source computes when no tile is visible.
\<close>

theorem captured_animal_keeps_levels:
  "carriedOff (capture target s) \<and> pathTo (capture target s) = Some target
   \<and> (\<forall>e dt st. carriedOff (self st) \<longrightarrow>
        (case act e dt st of
           Inr st' \<Rightarrow> carriedOff (self st') \<and> rng st' = rng st
              \<and> out st' = out st @ (if pathTo (self st) \<noteq> None \<and> isAtDestination (1 / 2) (self st)
                                     then [AnimalDead (regNumber (self st))] else [])
         | Inl err \<Rightarrow> err = NonFinite \<and> visibleTiles (self st) = []))
   \<and> (\<forall>ticks st st'. carriedOff (self st) \<longrightarrow> acts ticks st = Inr st' \<longrightarrow> carriedOff (self st'))"
proof (intro conjI allI impI)
  show "carriedOff (capture target s)" by (simp add: capture_def carriedOff_def)
  show "pathTo (capture target s) = Some target" by (simp add: capture_def)
next
  fix e :: env and dt :: real and st :: actst assume c: "carriedOff (self st)"
  show "case act e dt st of
           Inr st' \<Rightarrow> carriedOff (self st') \<and> rng st' = rng st
              \<and> out st' = out st @ (if pathTo (self st) \<noteq> None \<and> isAtDestination (1 / 2) (self st)
                                     then [AnimalDead (regNumber (self st))] else [])
         | Inl err \<Rightarrow> err = NonFinite \<and> visibleTiles (self st) = []"
    using act_carriedOff[OF c, of e dt] act_carriedOff_total[OF c, of e dt]
    by (auto split: sum.splits)
next
  fix ticks and st st' :: actst assume "carriedOff (self st)" "acts ticks st = Inr st'"
  then show "carriedOff (self st')" using acts_carriedOff by blast
qed

theorem captured_animal_keeps_levels_witness:
  "carriedOff (capture (9, 0) zebra)
   \<and> (case act herbivoreAlone 1 \<lparr>self = capture (9, 0) zebra, rng = (\<lambda>n. 1 / 2), out = []\<rparr> of
         Inr st' \<Rightarrow> foodLevel (self st') = 100 \<and> hydrationLevel (self st') = 100
                    \<and> out st' = [AnimalDead 0]
       | Inl err \<Rightarrow> False)"
proof -
  let ?st = "\<lparr>self = capture (9, 0) zebra, rng = (\<lambda>n. 1 / 2), out = []\<rparr>"
  have c: "carriedOff (self ?st)" by (simp add: capture_def carriedOff_def)
  have v: "pathTo (self ?st) \<noteq> None \<and> isAtDestination (1 / 2) (self ?st)" "regNumber (self ?st) = 0"
    by (simp_all add: capture_def zebra_def isAtDestination_def)
  have e: "\<exists>st'. act herbivoreAlone 1 ?st = Inr st'"
    by (simp add: capture_def zebra_def act_def ageAndDecay_def bindE_def updateState_def Let_def
         isHungry_def isThirsty_def isResting_def decideAction_def chooseNeedTarget_def
         isAtDestination_def computeBounds_def)
  from captured_animal_keeps_levels[of "(9, 0)" zebra] c
  have "case act herbivoreAlone 1 ?st of
           Inr st' \<Rightarrow> carriedOff (self st') \<and> rng st' = rng ?st
              \<and> out st' = out ?st @ (if pathTo (self ?st) \<noteq> None \<and> isAtDestination (1 / 2) (self ?st)
                                     then [AnimalDead (regNumber (self ?st))] else [])
         | Inl err \<Rightarrow> err = NonFinite \<and> visibleTiles (self ?st) = []"
    by blast
  with e v c show ?thesis
    by (auto simp: carriedOff_def split: sum.splits)
qed

section \<open>The act calls of a tick\<close>

lemma onUpdateVisibles_frame [simp]:
  "arrays (onUpdateVisibles r i m) = arrays m"
  "sprites (onUpdateVisibles r i m) = sprites m"
  "nextArray (onUpdateVisibles r i m) = nextArray m"
  "acted (onUpdateVisibles r i m) = acted m"
  "waitingJeeps (onUpdateVisibles r i m) = waitingJeeps m"
  "waitingVisitors (onUpdateVisibles r i m) = waitingVisitors m"
  "paths (onUpdateVisibles r i m) = paths m"
  "emitted (onUpdateVisibles r i m) = emitted m"
  by (simp_all add: onUpdateVisibles_def Let_def split: option.splits)

lemma onSignal_acted [simp]: "acted (onSignal a sg m) = acted m"
  by (cases sg) (simp_all add: onSignal_def removeSprite_def Let_def split: option.splits)

lemma runEffect_acted [simp]: "acted (runEffect a ef m) = acted m"
  by (cases ef) (simp_all add: runEffect_def addSprite_def)

lemma take_len: "take (length xs) ys = xs \<Longrightarrow> length xs \<le> length ys"
proof -
  assume "take (length xs) ys = xs"
  then have "length (take (length xs) ys) = length xs" by simp
  then show ?thesis by simp
qed

lemma removeSprite_stable: "stable arr xs m \<Longrightarrow> stable arr xs (removeSprite r m)"
  by (auto simp: stable_def removeSprite_def)

lemma stable_emitted [simp]: "stable arr xs (m\<lparr>emitted := e\<rparr>) = stable arr xs m"
  by (simp add: stable_def)

lemma onSignal_stable: "stable arr xs m \<Longrightarrow> stable arr xs (onSignal a sg m)"
proof (cases sg)
  case (AnimalDead r)
  then show "stable arr xs m \<Longrightarrow> ?thesis" by (simp add: onSignal_def Let_def removeSprite_stable)
next
  case (ShooterDead r)
  then show "stable arr xs m \<Longrightarrow> ?thesis" by (simp add: onSignal_def Let_def removeSprite_stable)
next
  case (TourFinished j)
  assume "stable arr xs m"
  then have "stable arr xs (removeSprite j (m\<lparr>emitted := emitted m @ [sg]\<rparr>))"
    by (simp add: removeSprite_stable)
  then show ?thesis using TourFinished by (simp add: onSignal_def Let_def stable_def)
next
  case (TileEaten t)
  then show "stable arr xs m \<Longrightarrow> ?thesis"
    by (simp add: onSignal_def Let_def stable_def split: option.splits)
qed (simp_all add: onSignal_def Let_def stable_def)

lemma addSprite_stable: "stable arr xs m \<Longrightarrow> stable arr xs (addSprite r m)"
proof -
  assume s: "stable arr xs m"
  then have "length xs \<le> length (arrays m arr)"
    by (simp add: stable_def take_len)
  then show ?thesis using s by (auto simp: stable_def addSprite_def)
qed

lemma runEffect_stable: "stable arr xs m \<Longrightarrow> stable arr xs (runEffect a ef m)"
proof (cases ef)
  case (Emit sg) then show "stable arr xs m \<Longrightarrow> ?thesis" by (simp add: runEffect_def onSignal_stable)
next
  case (EmitUpdateVisibles r i) then show "stable arr xs m \<Longrightarrow> ?thesis" by (simp add: runEffect_def stable_def)
next
  case (Store r s) then show "stable arr xs m \<Longrightarrow> ?thesis" by (simp add: runEffect_def stable_def)
next
  case (CallAddSprite r) then show "stable arr xs m \<Longrightarrow> ?thesis" by (simp add: runEffect_def addSprite_stable)
qed

lemma runEffects_stable:
  "stable arr xs m \<Longrightarrow> stable arr xs (fold (runEffect a) efs m)
                          \<and> acted (fold (runEffect a) efs m) = acted m"
  by (induction efs arbitrary: m) (simp_all add: runEffect_stable)

lemma forEachAct_acted:
  "stable arr xs m \<Longrightarrow> k + n = length xs \<Longrightarrow>
     acted (forEachAct a beh dt arr k n m) = acted m @ drop k xs
     \<and> stable arr xs (forEachAct a beh dt arr k n m)"
proof (induction n arbitrary: k m)
  case 0
  then show ?case by simp
next
  case (Suc n)
  from Suc.prems have k: "k < length xs" by simp
  from Suc.prems(1) have tk: "take (length xs) (arrays m arr) = xs" by (simp add: stable_def)
  then have len: "length xs \<le> length (arrays m arr)" by (rule take_len)
  have nth: "arrays m arr ! k = xs ! k" using tk k by (metis nth_take)
  define m1 where "m1 = m\<lparr>acted := acted m @ [xs ! k]\<rparr>"
  define m2 where "m2 = fold (runEffect a) (beh (xs ! k) dt m1) m1"
  have s1: "stable arr xs m1" using Suc.prems(1) by (simp add: stable_def m1_def)
  from runEffects_stable[OF s1] have s2: "stable arr xs m2" and a2: "acted m2 = acted m @ [xs ! k]"
    by (simp_all add: m2_def m1_def)
  have step: "forEachAct a beh dt arr k (Suc n) m = forEachAct a beh dt arr (Suc k) n m2"
    using k len nth by (simp add: Let_def m1_def m2_def)
  from Suc.IH[OF s2, of "Suc k"] Suc.prems(2)
  have "acted (forEachAct a beh dt arr (Suc k) n m2) = acted m2 @ drop (Suc k) xs"
    and "stable arr xs (forEachAct a beh dt arr (Suc k) n m2)" by simp_all
  then show ?case using step a2 k by (simp add: Cons_nth_drop_Suc)
qed


lemma plantAttempts_acted [simp]: "acted (fst (plantAttempts k a ty (m, g))) = acted m"
  by (induction k a ty "(m, g)" arbitrary: g rule: plantAttempts.induct)
     (auto simp: Let_def split: sum.splits option.splits)

lemma generatePlants_acted [simp]: "acted (fst (generatePlants a dt mg)) = acted (fst mg)"
  by (cases mg) (simp add: generatePlants_def Let_def)

lemma spawnPoacher_acted [simp]: "acted (fst (spawnPoacher a dt mg)) = acted (fst mg)"
  by (simp add: spawnPoacher_def Let_def)

lemma modify_acted [simp]: "acted (modify r f m) = acted m"
  by (simp add: modify_def split: option.splits)

lemma startTour_acted [simp]: "acted (fst (startTour mg)) = acted (fst mg)"
  by (simp add: startTour_def Let_def addSprite_def split: list.splits)

text \<open>
  C1. The calls of \<^verbatim>\<open>act\<close> that a tick makes are, in order, exactly the entries the
  sprite array has when the tick starts: each agent of the list is acted on once per
  entry (once when the list holds it once), whatever the calls add to or remove from
  the list meanwhile. A sprite added during the tick is not acted on in it, and a
  removal neither skips an entry nor reads outside the array: \<^verbatim>\<open>removeSprite\<close> leaves the
  array being iterated as it is and stores a new one.
\<close>

theorem tick_acts_once_each:
  assumes "sprites m < nextArray m"
  shows "acted (fst (tick a beh dt opn (m, g))) = acted m @ spriteList m"
proof -
  define m2 where "m2 = m\<lparr>emitted := emitted m @ map (\<lambda>j. TourRatings (getRatings m j)) (jeepsAtExit m),
                         visiblesCache := ageCache dt (visiblesCache m)\<rparr>"
  have st: "stable (sprites m2) (spriteList m) m2"
    using assms by (simp add: stable_def m2_def spriteList_def)
  have "acted (forEachAct a beh dt (sprites m2) 0 (length (arrays m2 (sprites m2))) m2)
        = acted m2 @ drop 0 (spriteList m)"
    using forEachAct_acted[OF st, of 0 "length (arrays m2 (sprites m2))" a beh dt]
    by (simp add: m2_def spriteList_def)
  then show ?thesis
    by (simp add: tick_def Let_def m2_def)
qed


theorem tick_acts_once_each_witness:
  "acted (fst (tick someAssets culling 1 False (threeMap, halves))) = [0, 1, 2]
   \<and> spriteList (fst (tick someAssets culling 1 False (threeMap, halves))) = [0, 2, 7]"
proof -
  have "sprites threeMap < nextArray threeMap" by (simp add: threeMap_def rowMap_def)
  from tick_acts_once_each [OF this, of someAssets culling 1 False halves]
  have "acted (fst (tick someAssets culling 1 False (threeMap, halves))) = [0, 1, 2]"
    by (simp add: threeMap_def rowMap_def spriteList_def)
  moreover have "spriteList (fst (tick someAssets culling 1 False (threeMap, halves))) = [0, 2, 7]"
    by (simp add: tick_def Let_def threeMap_def rowMap_def rowTiles_def jeepsAtExit_def
          spriteList_def ageCache_def culling_def runEffect_def onSignal_def removeSprite_def
          addSprite_def generatePlants_def spawnPoacher_def halves_def advanceRng_def)
  ultimately show ?thesis by simp
qed

section \<open>The visibility cache\<close>















lemma onSignal_cache [simp]: "visiblesCache (onSignal a sg m) = visiblesCache m"
  by (cases sg) (simp_all add: onSignal_def removeSprite_def Let_def split: option.splits)




lemma plantAttempts_cache [simp]: "visiblesCache (fst (plantAttempts k a ty (m, g))) = visiblesCache m"
  by (induction k a ty "(m, g)" arbitrary: g rule: plantAttempts.induct)
     (auto simp: Let_def split: sum.splits option.splits)

lemma generatePlants_cache [simp]: "visiblesCache (fst (generatePlants a dt mg)) = visiblesCache (fst mg)"
  by (cases mg) (simp add: generatePlants_def Let_def)

lemma spawnPoacher_cache [simp]: "visiblesCache (fst (spawnPoacher a dt mg)) = visiblesCache (fst mg)"
  by (simp add: spawnPoacher_def Let_def)

lemma modify_cache [simp]: "visiblesCache (modify r f m) = visiblesCache m"
  by (simp add: modify_def split: option.splits)

lemma startTour_cache [simp]: "visiblesCache (fst (startTour mg)) = visiblesCache (fst mg)"
  by (simp add: startTour_def Let_def addSprite_def split: list.splits)


lemma ageCache_young: "v \<in> set (ageCache dt c) \<Longrightarrow> c_time v < 1"
  by (auto simp: ageCache_def)



section \<open>The start of a tour\<close>


lemma toursEnded_Nil [simp]: "toursEnded [] = []"
  by (simp add: toursEnded_def)

lemma toursEnded_append [simp]: "toursEnded (xs @ ys) = toursEnded xs @ toursEnded ys"
  by (simp add: toursEnded_def)



lemma queuesKept_refl: "objs m j = Some sj \<Longrightarrow> passengers sj = ps \<Longrightarrow> queuesKept j ps m m"
  by (simp add: queuesKept_def)


lemma removeSprite_queues [simp]:
  "waitingJeeps (removeSprite r m) = waitingJeeps m"
  "waitingVisitors (removeSprite r m) = waitingVisitors m"
  "paths (removeSprite r m) = paths m"
  "emitted (removeSprite r m) = emitted m"
  "objs (removeSprite r m) = objs m"
  by (simp_all add: removeSprite_def)














section \<open>Visibility queries\<close>

lemma floor_two_int: "\<lfloor>2 * real_of_int k\<rfloor> = 2 * k"
proof -
  have "2 * real_of_int k = real_of_int (2 * k)" by simp
  then show ?thesis by (simp only: floor_of_int)
qed

lemma floor_int_add: "\<lfloor>real_of_int a + real_of_int b\<rfloor> = a + b"
proof -
  have "real_of_int a + real_of_int b = real_of_int (a + b)" by simp
  then show ?thesis by (simp only: floor_of_int)
qed

lemma offsets_int:
  assumes "0 \<le> k"
  shows "offsets (real_of_int k) = map real_of_int [- k .. k]"
proof (rule nth_equalityI)
  show "length (offsets (real_of_int k)) = length (map real_of_int [- k .. k])"
    using assms by (simp add: offsets_def floor_two_int)
next
  fix i assume "i < length (offsets (real_of_int k))"
  then have i: "i < nat (2 * k + 1)" using assms
    by (simp add: offsets_def floor_two_int)
  then have "[- k .. k] ! i = - k + int i" using assms by (intro nth_upto) linarith
  moreover have "i < length [- k .. k]" using i assms by simp
  moreover have "offsets (real_of_int k) ! i = - real_of_int k + real i"
    using i assms by (simp add: offsets_def floor_two_int)
  ultimately show "offsets (real_of_int k) ! i = map real_of_int [- k .. k] ! i"
    by simp
qed

lemma map_shift_upto: "map (\<lambda>j. c + j) [a .. b] = [c + a .. c + b]"
proof (rule nth_equalityI)
  show "length (map (\<lambda>j. c + j) [a .. b]) = length [c + a .. c + b]" by simp
next
  fix i assume "i < length (map (\<lambda>j. c + j) [a .. b])"
  then have i: "i < nat (b - a + 1)" by simp
  then have "[a .. b] ! i = a + int i" "[c + a .. c + b] ! i = c + a + int i"
    by (simp_all add: nth_upto)
  then show "map (\<lambda>j. c + j) [a .. b] ! i = [c + a .. c + b] ! i" using i by simp
qed

lemma getVisibleTiles_int:
  assumes "viewDistance s = real_of_int k" and "0 \<le> k"
  shows "getVisibleTiles m s =
         concat (map (\<lambda>x. concat (map (\<lambda>y. if inBounds m x y then [tileAt m x y] else [])
            [\<lfloor>snd (position s)\<rfloor> - k .. \<lfloor>snd (position s)\<rfloor> + k]))
            [\<lfloor>fst (position s)\<rfloor> - k .. \<lfloor>fst (position s)\<rfloor> + k])"
proof -
  have sh: "[c - k .. c + k] = map (\<lambda>j. c + j) [- k .. k]" for c
    using map_shift_upto[of c "- k" k] by simp
  show ?thesis
    unfolding getVisibleTiles_def Let_def assms(1) offsets_int[OF assms(2)] sh
    by (simp add: comp_def inBounds_def floor_int_add cong: if_cong)
qed

lemma visible_sprites:
  assumes "objs m a = Some sa"
  shows "b \<in> set (getVisibleSprites m a) \<longleftrightarrow>
         b \<in> set (spriteList m) \<and> b \<noteq> a
         \<and> (\<exists>sb. objs m b = Some sb
              \<and> \<bar>fst (position sb) - real_of_int \<lfloor>fst (position sa)\<rfloor>\<bar> \<le> viewDistance sa
              \<and> \<bar>snd (position sb) - real_of_int \<lfloor>snd (position sa)\<rfloor>\<bar> \<le> viewDistance sa)"
  using assms by (auto simp: getVisibleSprites_def inView_def Let_def abs_le_iff split: option.splits)

text \<open>
  C3, as the code has it. \<^verbatim>\<open>getVisibleSprites(a)\<close> never holds \<open>a\<close>, and holds a sprite
  \<open>b\<close> of the list exactly when \<open>b\<close> is another sprite whose position is, on both axes,
  at most the view distance of \<open>a\<close> away from the floored position of \<open>a\<close>. When the
  view distance is a whole number \<open>k\<close>, \<^verbatim>\<open>getVisibleTiles(a)\<close> is the list of the tiles of
  the cells of the grid at most \<open>k\<close> away on both axes from the cell of \<open>a\<close>, column by
  column, each once.
\<close>

theorem visible_sprites_and_tiles:
  assumes "objs m a = Some sa"
  shows "a \<notin> set (getVisibleSprites m a)
     \<and> (\<forall>b. b \<in> set (getVisibleSprites m a) \<longleftrightarrow>
            b \<in> set (spriteList m) \<and> b \<noteq> a
            \<and> (\<exists>sb. objs m b = Some sb
                 \<and> \<bar>fst (position sb) - real_of_int \<lfloor>fst (position sa)\<rfloor>\<bar> \<le> viewDistance sa
                 \<and> \<bar>snd (position sb) - real_of_int \<lfloor>snd (position sa)\<rfloor>\<bar> \<le> viewDistance sa))
     \<and> (\<forall>k. viewDistance sa = real_of_int k \<and> 0 \<le> k \<longrightarrow>
            getVisibleTiles m sa =
              concat (map (\<lambda>x. concat (map (\<lambda>y. if inBounds m x y then [tileAt m x y] else [])
                 [\<lfloor>snd (position sa)\<rfloor> - k .. \<lfloor>snd (position sa)\<rfloor> + k]))
                 [\<lfloor>fst (position sa)\<rfloor> - k .. \<lfloor>fst (position sa)\<rfloor> + k]))"
  using visible_sprites [OF assms] getVisibleTiles_int [of sa _ m]
  by (simp add: getVisibleSprites_def assms)

theorem visible_sprites_and_tiles_witness:
  "getVisibleSprites tourMap 0 = []
   \<and> map tpos (getVisibleTiles tourMap (jeepAt 0 (2, 0))) = [(1, 0), (2, 0)]"
proof -
  have o: "objs tourMap 0 = Some (jeepAt 0 (2, 0))" by (simp add: tourMap_def rowMap_def)
  have v: "viewDistance (jeepAt 0 (2, 0)) = real_of_int 1 \<and> (0::int) \<le> 1"
    by (simp add: jeepAt_def newSprite_def viewDistance_def plainJson_def)
  have p: "position (jeepAt 0 (2, 0)) = (2, 0)" by (simp add: jeepAt_def newSprite_def)
  from visible_sprites_and_tiles [OF o] v
  have "getVisibleTiles tourMap (jeepAt 0 (2, 0)) =
          concat (map (\<lambda>x. concat (map (\<lambda>y. if inBounds tourMap x y then [tileAt tourMap x y] else [])
             [\<lfloor>snd (position (jeepAt 0 (2, 0)))\<rfloor> - 1 .. \<lfloor>snd (position (jeepAt 0 (2, 0)))\<rfloor> + 1]))
             [\<lfloor>fst (position (jeepAt 0 (2, 0)))\<rfloor> - 1 .. \<lfloor>fst (position (jeepAt 0 (2, 0)))\<rfloor> + 1])"
    by blast
  then have "map tpos (getVisibleTiles tourMap (jeepAt 0 (2, 0))) = [(1, 0), (2, 0)]"
    by (simp add: p upto_rec1 inBounds_def tileAt_def tourMap_def rowMap_def rowTiles_def
          plainTile_def roadTile_def)
  moreover have "getVisibleSprites tourMap 0 = []"
    by (simp add: getVisibleSprites_def tourMap_def rowMap_def spriteList_def)
  ultimately show ?thesis by simp
qed

text \<open>
  C3 as stated fails for the tiles when the view distance is not a whole number: a
  zebra at (2,0) on a hill with view distance 1.5 is given the tile of cell (0,0),
  which is 2 away from its cell, because the loop floors \<open>-1.5\<close> to \<open>-2\<close>.
\<close>

theorem hill_tiles_counterexample:
  "viewDistance hillZebra = 3 / 2 \<and> position hillZebra = (2, 0)
   \<and> map tpos (getVisibleTiles stripMap hillZebra) = [(0, 0), (1, 0), (2, 0), (3, 0)]
   \<and> \<not> \<bar>real_of_int 0 - real_of_int \<lfloor>fst (position hillZebra)\<rfloor>\<bar> \<le> viewDistance hillZebra"
  by (simp add: hillZebra_def zebra_def viewDistance_def getVisibleTiles_def offsets_def
       stripMap_def rowMap_def tileAt_def sandTile_def plainTile_def upt_rec)

section \<open>Road planning finds a path when there is one\<close>

lemma gridOk_tpos:
  assumes "gridOk m" "inBounds m x y"
  shows "tpos (tileAt m x y) = (x, y)"
proof -
  from assms(2) have x: "nat x < nat (width m)" "0 \<le> x" and y: "nat y < nat (height m)" "0 \<le> y"
    by (simp_all add: inBounds_def)
  from assms(1) x(1) have "list_all (\<lambda>y. tpos (tiles m ! nat x ! y) = (int (nat x), int y)) [0 ..< nat (height m)]"
    by (simp add: gridOk_def list_all_iff)
  with y(1) have "tpos (tiles m ! nat x ! nat y) = (int (nat x), int (nat y))"
    by (simp add: list_all_iff)
  then show ?thesis using x(2) y(2) by (simp add: tileAt_def)
qed

lemma gridOk_start:
  assumes "gridOk m" "0 < width m" "0 < height m"
  shows "getTileAt m 0 0 = Inr (tileAt m 0 0)"
proof -
  have "0 < nat (width m)" using assms(2) by simp
  then have "length (tiles m ! 0) = nat (height m)" using assms(1) by (simp add: gridOk_def list_all_iff)
  then show ?thesis using assms by (simp add: getTileAt_def tileAt_def gridOk_def)
qed

lemma concat_nonempty: "concat xss \<noteq> [] \<longleftrightarrow> (\<exists>xs \<in> set xss. xs \<noteq> [])"
  by (induction xss) auto

lemma dfs_found_iff:
  "gridOk m \<Longrightarrow> inBounds m (fst c) (snd c) \<Longrightarrow> current = tileAt m (fst c) (snd c) \<Longrightarrow>
   c \<notin> set visited \<Longrightarrow>
     (dfs m current pth visited \<noteq> [] \<longleftrightarrow> (\<exists>cs. trail m visited (c # cs)))"
proof (induction m current pth visited arbitrary: c rule: dfs.induct)
  case (1 m current pth visited)
  have pos: "tpos current = c" using gridOk_tpos[OF "1.prems"(1,2)] "1.prems"(3) by simp
  show ?case
  proof (cases "tclass current = Exit")
    case True
    then have "trail m visited [c]" using "1.prems"(3,4) by (simp add: trail_def exitCell_def)
    moreover have "dfs m current pth visited \<noteq> []" using True by (subst dfs.simps) simp
    ultimately show ?thesis by blast
  next
    case False
    let ?V = "tpos current # visited"
    let ?ns = "filter (\<lambda>n. tpos n \<notin> set ?V) (neighbors m current)"
    have unfold: "dfs m current pth visited \<noteq> [] \<longleftrightarrow>
                  (\<exists>n \<in> set ?ns. dfs m n (pth @ [current]) ?V \<noteq> [])"
      using False by (subst dfs.simps) (simp add: concat_nonempty)
    show ?thesis
    proof
      assume "dfs m current pth visited \<noteq> []"
      with unfold obtain n where n: "n \<in> set ?ns" "dfs m n (pth @ [current]) ?V \<noteq> []" by blast
      from n(1) have nn: "n \<in> set (neighbors m current)" and nv: "tpos n \<notin> set ?V" by simp_all
      from nn obtain nx ny where
        adj: "\<bar>nx - fst c\<bar> + \<bar>ny - snd c\<bar> = 1" and ib: "inBounds m nx ny"
        and nt: "n = tileAt m nx ny" and rk: "roadKind n"
        unfolding neighbors_iff pos by blast
      have np: "tpos n = (nx, ny)" using gridOk_tpos[OF "1.prems"(1) ib] nt by simp
      have "(dfs m n (pth @ [current]) ?V \<noteq> []) = (\<exists>cs. trail m ?V ((nx, ny) # cs))"
        using "1.IH"[OF False n(1), of "(nx, ny)"] "1.prems"(1) ib nt nv np by simp
      with n(2) obtain cs where t: "trail m ?V ((nx, ny) # cs)" by blast
      have "trail m visited (c # (nx, ny) # cs)"
        using t "1.prems"(4) adj ib rk nt pos
        by (auto simp: trail_def adjacent_def roadCell_def list_all_iff)
      then show "\<exists>cs. trail m visited (c # cs)" by blast
    next
      assume "\<exists>cs. trail m visited (c # cs)"
      then obtain cs where t: "trail m visited (c # cs)" by blast
      have "cs \<noteq> []"
      proof
        assume "cs = []"
        with t have "exitCell m c" by (simp add: trail_def)
        then show False using False "1.prems"(3) by (simp add: exitCell_def)
      qed
      then obtain d ds where cs: "cs = d # ds" by (cases cs) auto
      define n where "n = tileAt m (fst d) (snd d)"
      from t cs have adj: "adjacent c d" and rc: "roadCell m d" and dv: "d \<notin> set visited" "d \<noteq> c"
        by (auto simp: trail_def list_all_iff)
      have ib: "inBounds m (fst d) (snd d)" and rk: "roadKind n" using rc by (simp_all add: roadCell_def n_def)
      have np: "tpos n = d" using gridOk_tpos[OF "1.prems"(1) ib] by (simp add: n_def)
      have "n \<in> set (neighbors m current)"
        unfolding neighbors_iff pos using adj ib rk by (auto simp: adjacent_def n_def)
      then have nin: "n \<in> set ?ns" using np dv pos by simp
      have t2: "trail m ?V (d # ds)" using t cs pos by (auto simp: trail_def list_all_iff)
      have "(dfs m n (pth @ [current]) ?V \<noteq> []) = (\<exists>cs. trail m ?V (d # cs))"
        using "1.IH"[OF False nin, of d] "1.prems"(1) ib dv pos by (simp add: n_def)
      with t2 have "dfs m n (pth @ [current]) ?V \<noteq> []" by blast
      with unfold nin show "dfs m current pth visited \<noteq> []" by blast
    qed
  qed
qed

text \<open>
  C4. On a well-formed grid with at least one cell, \<^verbatim>\<open>planRoads()\<close> returns without
  throwing, and returns true exactly when a path without repeated cells leads from cell
  (0,0), the entrance, by steps along one axis through cells holding road, entrance or
  exit tiles to a cell holding the exit tile. Setting \<^verbatim>\<open>isOpen\<close> to true leaves the flag
  as it was, without an error, when there is no such path, and sets it when there is one.
\<close>

theorem planRoads_finds_path:
  assumes "gridOk (smap md)" and "0 < width (smap md)" and "0 < height (smap md)"
  shows "\<exists>m' found md'.
           planRoads (smap md) = Inr (m', found)
           \<and> (found \<longleftrightarrow> (\<exists>cs. roadPath (smap md) ((0, 0) # cs)))
           \<and> setIsOpen True md = Inr md'
           \<and> isOpen md' = (if found then True else isOpen md)"
proof -
  let ?m = "smap md"
  let ?ps = "dfs ?m (tileAt ?m 0 0) [] []"
  have s: "getTileAt ?m 0 0 = Inr (tileAt ?m 0 0)" by (rule gridOk_start[OF assms])
  have p: "planRoads ?m = Inr (?m\<lparr>paths := ?ps\<rparr>, ?ps \<noteq> [])"
    by (simp add: planRoads_def s Let_def)
  have ib: "inBounds ?m (fst (0, 0)) (snd (0, 0))" using assms(2,3) by (simp add: inBounds_def)
  have f: "?ps \<noteq> [] \<longleftrightarrow> (\<exists>cs. roadPath ?m ((0, 0) # cs))"
    using dfs_found_iff[OF assms(1) ib, of "tileAt ?m 0 0" "[]" "[]"] by (simp add: roadPath_def)
  show ?thesis using p f by (auto simp: setIsOpen_def)
qed

theorem planRoads_finds_path_witness:
  "map_sum id snd (planRoads rowMap) = Inr True \<and> roadPath rowMap [(0, 0), (1, 0), (2, 0)]
   \<and> map_sum id isOpen (setIsOpen True (modelOf rowMap)) = Inr True
   \<and> map_sum id snd (planRoads gapMap) = Inr False
   \<and> map_sum id isOpen (setIsOpen True (modelOf gapMap)) = Inr False"
proof -
  have g: "gridOk (smap (modelOf rowMap))" "0 < width (smap (modelOf rowMap))"
    "0 < height (smap (modelOf rowMap))"
    by (simp_all add: modelOf_def rowMap_def rowTiles_def gridOk_def plainTile_def roadTile_def
          eval_nat_numeral)
  have g2: "gridOk (smap (modelOf gapMap))" "0 < width (smap (modelOf gapMap))"
    "0 < height (smap (modelOf gapMap))"
    by (simp_all add: modelOf_def gapMap_def rowMap_def gridOk_def plainTile_def sandTile_def
          eval_nat_numeral)
  have r: "roadPath rowMap [(0, 0), (1, 0), (2, 0)]"
    by (simp add: roadPath_def trail_def adjacent_def roadCell_def exitCell_def inBounds_def
          tileAt_def roadKind_def rowMap_def rowTiles_def plainTile_def roadTile_def)
  have n: "\<not> (\<exists>cs. roadPath gapMap ((0, 0) # cs))"
  proof
    assume "\<exists>cs. roadPath gapMap ((0, 0) # cs)"
    then obtain cs where t: "roadPath gapMap ((0, 0) # cs)" by blast
    have ne: "\<not> exitCell gapMap (0, 0)"
      by (simp add: exitCell_def tileAt_def gapMap_def rowMap_def plainTile_def)
    with t obtain d ds where cs: "cs = d # ds" by (cases cs) (auto simp: roadPath_def trail_def)
    with t have a: "adjacent (0, 0) d" "roadCell gapMap d" by (auto simp: roadPath_def trail_def)
    from a(2) have "0 \<le> fst d" "fst d < 3" "snd d = 0"
      by (auto simp: roadCell_def inBounds_def gapMap_def rowMap_def)
    with a(1) have "d = (1, 0)" by (cases d) (auto simp: adjacent_def)
    with a(2) show False
      by (simp add: roadCell_def roadKind_def tileAt_def gapMap_def rowMap_def sandTile_def plainTile_def)
  qed
  have m: "smap (modelOf rowMap) = rowMap" "smap (modelOf gapMap) = gapMap"
    "isOpen (modelOf gapMap) = False"
    by (simp_all add: modelOf_def)
  from r have e: "\<exists>cs. roadPath rowMap ((0, 0) # cs)" by blast
  from planRoads_finds_path [OF g] e
  have 1: "map_sum id snd (planRoads rowMap) = Inr True
           \<and> map_sum id isOpen (setIsOpen True (modelOf rowMap)) = Inr True"
    unfolding m by auto
  from planRoads_finds_path [OF g2] n
  have 2: "map_sum id snd (planRoads gapMap) = Inr False
           \<and> map_sum id isOpen (setIsOpen True (modelOf gapMap)) = Inr False"
    unfolding m by auto
  from 1 2 r show ?thesis by simp
qed

section \<open>The daily check of salaries and goals\<close>

lemma fold_plus_sum: "fold (\<lambda>s total. total + f s) xs (acc :: real) = acc + sum_list (map f xs)"
  by (induction xs arbitrary: acc) simp_all

lemma getRangerSalary_sum:
  "getRangerSalary m =
     (\<Sum>s\<leftarrow>filter (\<lambda>s. sclass s = Ranger) (List.map_filter (objs m) (spriteList m)). salary (jsonData s))"
  by (simp add: getRangerSalary_def fold_plus_sum)

lemma checkGoalsMet_idle:
  "\<not> (time md \<ge> 1440 \<and> lastGoalCheckDay md \<noteq> \<lfloor>time md / 1440\<rfloor>) \<Longrightarrow> checkGoalsMet a md = md"
  by (auto simp: checkGoalsMet_def Let_def)

lemma checkGoalsMet_day:
  "time md \<ge> 1440 \<Longrightarrow> lastGoalCheckDay (checkGoalsMet a md) = \<lfloor>time md / 1440\<rfloor>"
  by (simp add: checkGoalsMet_def Let_def)

lemma checkGoalsMet_time: "time (checkGoalsMet a md) = time md"
  by (simp add: checkGoalsMet_def Let_def)

lemma same_day_early:
  assumes "\<lfloor>t / 1440\<rfloor> = \<lfloor>u / 1440\<rfloor>" and "\<not> (u :: real) \<ge> 1440"
  shows "\<not> (t :: real) \<ge> 1440"
proof
  assume "t \<ge> 1440"
  then have "1 \<le> t / 1440" by simp
  then have "1 \<le> \<lfloor>t / 1440\<rfloor>" by linarith
  moreover from assms(2) have "u / 1440 < 1" by simp
  then have "\<lfloor>u / 1440\<rfloor> < 1" by linarith
  ultimately show False using assms(1) by simp
qed

lemma checkGoalsMet_once:
  assumes "\<lfloor>t / 1440\<rfloor> = \<lfloor>time md / 1440\<rfloor>"
  shows "checkGoalsMet a ((checkGoalsMet a md)\<lparr>time := t\<rparr>) = (checkGoalsMet a md)\<lparr>time := t\<rparr>"
proof (cases "time md \<ge> 1440")
  case True
  have "lastGoalCheckDay ((checkGoalsMet a md)\<lparr>time := t\<rparr>) = \<lfloor>t / 1440\<rfloor>"
    using checkGoalsMet_day[OF True, of a] assms by simp
  then show ?thesis by (intro checkGoalsMet_idle) simp
next
  case False
  have "\<not> t \<ge> 1440" by (rule same_day_early[OF assms False])
  then show ?thesis by (intro checkGoalsMet_idle) simp
qed

text \<open>
  C8. \<^verbatim>\<open>checkGoalsMet()\<close> does something only when a day has passed and the day of the
  clock is not the day of its last check. Then the balance becomes the balance less the
  sum of the salaries of the rangers on the map, or 0 if that is negative; the day is
  recorded; and with the new balance and the counts of herbivores, carnivores and
  visitors all at or above the goal, the counter of days goes up by one and the goal-met
  signal is emitted if the counter has reached the days the goal asks for, otherwise
  the counter becomes 0. The map, the clock and the goal are never changed, and a further
  call at any time of the same day changes nothing.
\<close>

theorem daily_salaries_and_goals:
  "let day = \<lfloor>time md / 1440\<rfloor>;
       due = (time md \<ge> 1440 \<and> lastGoalCheckDay md \<noteq> day);
       rangers = filter (\<lambda>s. sclass s = Ranger) (List.map_filter (objs (smap md)) (spriteList (smap md)));
       paid = max (balance md - (\<Sum>s\<leftarrow>rangers. salary (jsonData s))) 0;
       met = (paid \<ge> goal_balance (goalOf md)
              \<and> real (getHerbivoreCount a (smap md)) \<ge> goal_herbivores (goalOf md)
              \<and> real (getCarnivoreCount a (smap md)) \<ge> goal_carnivores (goalOf md)
              \<and> totalVisitorCount (smap md) \<ge> goal_visitors (goalOf md));
       md' = checkGoalsMet a md
   in (due \<longrightarrow> balance md' = paid \<and> lastGoalCheckDay md' = day
                \<and> daysGoalMet md' = (if met then daysGoalMet md + 1 else 0)
                \<and> signals md' = (if met \<and> daysGoalMet md + 1 \<ge> goal_forDays (goalOf md)
                                  then signals md @ [GoalMet] else signals md))
      \<and> (\<not> due \<longrightarrow> md' = md)
      \<and> smap md' = smap md \<and> time md' = time md \<and> goalOf md' = goalOf md
      \<and> (\<forall>t. \<lfloor>t / 1440\<rfloor> = day \<longrightarrow> checkGoalsMet a (md'\<lparr>time := t\<rparr>) = md'\<lparr>time := t\<rparr>)"
proof -
  have once: "\<forall>t. \<lfloor>t / 1440\<rfloor> = \<lfloor>time md / 1440\<rfloor> \<longrightarrow>
      checkGoalsMet a ((checkGoalsMet a md)\<lparr>time := t\<rparr>) = (checkGoalsMet a md)\<lparr>time := t\<rparr>"
    using checkGoalsMet_once by blast
  have rest: "smap (checkGoalsMet a md) = smap md \<and> time (checkGoalsMet a md) = time md
      \<and> goalOf (checkGoalsMet a md) = goalOf md"
    by (simp add: checkGoalsMet_def Let_def)
  have idle: "\<not> (time md \<ge> 1440 \<and> lastGoalCheckDay md \<noteq> \<lfloor>time md / 1440\<rfloor>) \<longrightarrow> checkGoalsMet a md = md"
    using checkGoalsMet_idle by blast
  let ?paid = "max (balance md - (\<Sum>s\<leftarrow>filter (\<lambda>s. sclass s = Ranger)
      (List.map_filter (objs (smap md)) (spriteList (smap md))). salary (jsonData s))) 0"
  let ?met = "?paid \<ge> goal_balance (goalOf md)
              \<and> real (getHerbivoreCount a (smap md)) \<ge> goal_herbivores (goalOf md)
              \<and> real (getCarnivoreCount a (smap md)) \<ge> goal_carnivores (goalOf md)
              \<and> totalVisitorCount (smap md) \<ge> goal_visitors (goalOf md)"
  have met: "goalsMet a (md\<lparr>balance := max (balance md - getRangerSalary (smap md)) 0\<rparr>) = ?met"
    by (simp add: goalsMet_def getRangerSalary_sum)
  have due: "time md \<ge> 1440 \<and> lastGoalCheckDay md \<noteq> \<lfloor>time md / 1440\<rfloor> \<longrightarrow>
      balance (checkGoalsMet a md) = ?paid
      \<and> lastGoalCheckDay (checkGoalsMet a md) = \<lfloor>time md / 1440\<rfloor>
      \<and> daysGoalMet (checkGoalsMet a md) = (if ?met then daysGoalMet md + 1 else 0)
      \<and> signals (checkGoalsMet a md)
          = (if ?met \<and> daysGoalMet md + 1 \<ge> goal_forDays (goalOf md)
             then signals md @ [GoalMet] else signals md)"
    unfolding met[symmetric]
    by (simp add: checkGoalsMet_def Let_def getRangerSalary_sum)
  show ?thesis
    unfolding Let_def
    using once rest idle due by blast
qed

theorem daily_salaries_and_goals_witness:
  "balance (checkGoalsMet someAssets secondDay) = 9950
   \<and> daysGoalMet (checkGoalsMet someAssets secondDay) = 1
   \<and> signals (checkGoalsMet someAssets secondDay) = []
   \<and> lastGoalCheckDay (checkGoalsMet someAssets secondDay) = 1
   \<and> checkGoalsMet someAssets ((checkGoalsMet someAssets secondDay)\<lparr>time := 2000\<rparr>)
       = (checkGoalsMet someAssets secondDay)\<lparr>time := 2000\<rparr>"
proof -
  have r: "List.map_filter (objs (smap secondDay)) (spriteList (smap secondDay))
           = [newSprite Ranger ''safari:ranger'' 0 (1, 0) 0 plainJson]"
    by (simp add: secondDay_def modelOf_def rangerMap_def rowMap_def spriteList_def List.map_filter_simps)
  have f: "time secondDay = 1500" "lastGoalCheckDay secondDay = - 1" "balance secondDay = 10000"
    "daysGoalMet secondDay = 0" "signals secondDay = []"
    "goalOf secondDay = \<lparr>goal_balance = 1000, goal_herbivores = 0, goal_carnivores = 0,
        goal_visitors = 0, goal_forDays = 2\<rparr>"
    "totalVisitorCount (smap secondDay) = 0"
    by (simp_all add: secondDay_def modelOf_def rangerMap_def rowMap_def)
  have s: "sclass (newSprite Ranger ''safari:ranger'' 0 (1, 0) 0 plainJson) = Ranger"
    "salary (jsonData (newSprite Ranger ''safari:ranger'' 0 (1, 0) 0 plainJson)) = 50"
    by (simp_all add: newSprite_def plainJson_def)
  have d: "\<lfloor>(2000 :: real) / 1440\<rfloor> = 1" "\<lfloor>(1500 :: real) / 1440\<rfloor> = 1" by simp_all
  from daily_salaries_and_goals [of secondDay someAssets]
  show ?thesis
    unfolding Let_def r f by (simp add: s d)
qed

section \<open>Purchases above the balance\<close>

lemma onUpdateVisibles_shape:
  "onUpdateVisibles r i m
     = m\<lparr>objs := (objs m)(r := objs (onUpdateVisibles r i m) r),
         visiblesCache := visiblesCache (onUpdateVisibles r i m)\<rparr>"
  by (auto simp: onUpdateVisibles_def Let_def fun_upd_idem split: option.splits)

lemma load_construct:
  "\<exists>s c. load (uuid m) (construct sp m)
           = m\<lparr>objs := (objs m)(uuid m := s), uuid := Suc (uuid m), visiblesCache := c\<rparr>"
proof -
  define m1 where "m1 = construct sp m"
  have "load (uuid m) m1
          = m1\<lparr>objs := (objs m1)(uuid m := objs (load (uuid m) m1) (uuid m)),
               visiblesCache := visiblesCache (load (uuid m) m1)\<rparr>"
    unfolding load_def by (rule onUpdateVisibles_shape)
  also have "\<dots> = m\<lparr>objs := (objs m)(uuid m := objs (load (uuid m) m1) (uuid m)),
                     uuid := Suc (uuid m), visiblesCache := visiblesCache (load (uuid m) m1)\<rparr>"
    by (simp add: m1_def construct_def)
  finally show ?thesis unfolding m1_def by blast
qed

lemma untouched_load:
  "untouched md (md\<lparr>smap := load (uuid (smap md)) (construct sp (smap md))\<rparr>)"
proof -
  obtain s c where "load (uuid (smap md)) (construct sp (smap md))
      = (smap md)\<lparr>objs := (objs (smap md))(uuid (smap md) := s), uuid := Suc (uuid (smap md)),
                  visiblesCache := c\<rparr>"
    using load_construct by blast
  then show ?thesis by (simp add: untouched_def)
qed

lemma untouched_fields:
  assumes "untouched md md'"
  shows "balance md' = balance md" "tiles (smap md') = tiles (smap md)"
    "spriteList (smap md') = spriteList (smap md)" "waitingJeeps (smap md') = waitingJeeps (smap md)"
    "groups (smap md') = groups (smap md)" "isOpen md' = isOpen md"
proof -
  from assms obtain o' u c where e: "md' = md\<lparr>smap := (smap md)\<lparr>objs := o', uuid := u, visiblesCache := c\<rparr>\<rparr>"
    unfolding untouched_def by blast
  show "balance md' = balance md" "tiles (smap md') = tiles (smap md)"
    "spriteList (smap md') = spriteList (smap md)" "waitingJeeps (smap md') = waitingJeeps (smap md)"
    "groups (smap md') = groups (smap md)" "isOpen md' = isOpen md"
    by (simp_all add: e spriteList_def)
qed

lemma buy_rejects: "p > balance md \<Longrightarrow> buy p md = (False, md)"
  by (simp add: buy_def)

lemma buyTile_rejects:
  assumes "createTile a i x y = Some t" and "tile_buyPrice t > balance md"
  shows "case buyTile a i x y md of Inr md' \<Rightarrow> md' = md | Inl e \<Rightarrow> getTileAt (smap md) x y = Inl e"
  using assms by (simp add: buyTile_def buy_def split: sum.splits)

lemma buyJeep_rejects:
  assumes "buyPrice (jeepJson a) > balance md"
  shows "untouched md (buyJeep a md)"
  using assms untouched_load[of md] by (simp add: buyJeep_def buy_def Let_def)

lemma buyRanger_rejects:
  assumes "buyPrice (rangerJson a) > balance md"
  shows "untouched md (buyRanger a x y md)"
  using assms untouched_load[of md] by (simp add: buyRanger_def buy_def Let_def)

lemma buyAnimal_rejects:
  assumes "buyPrice j > balance md"
  shows "\<exists>md'. buyAnimal c (Some j) i x y (md, g) = Some (md', g) \<and> untouched md md'"
  using assms untouched_load[of md] by (simp add: buyAnimal_def buy_def Let_def)

text \<open>
  C9. With a price above the balance, \<^verbatim>\<open>buy\<close> returns false and changes nothing, and
  \<^verbatim>\<open>buyTile\<close> leaves the model as it was (or throws, outside the grid, having changed
  nothing). \<^verbatim>\<open>buyJeep\<close>, \<^verbatim>\<open>buyRanger\<close>, \<^verbatim>\<open>buyHerbivore\<close> and \<^verbatim>\<open>buyCarnivore\<close> return,
  with the balance, the tiles, the sprites on the map, the waiting jeeps, the groups and
  the open flag unchanged; of the whole model only the registration counter, the object
  just constructed and the cache of visible things may differ.
\<close>

theorem rejected_purchase_keeps_state:
  "(p > balance md \<longrightarrow> buy p md = (False, md))
   \<and> (\<forall>t. createTile a i tx ty = Some t \<and> tile_buyPrice t > balance md \<longrightarrow>
          (case buyTile a i tx ty md of Inr md' \<Rightarrow> md' = md
           | Inl e \<Rightarrow> getTileAt (smap md) tx ty = Inl e))
   \<and> (buyPrice (jeepJson a) > balance md \<longrightarrow> untouched md (buyJeep a md))
   \<and> (buyPrice (rangerJson a) > balance md \<longrightarrow> untouched md (buyRanger a x y md))
   \<and> (\<forall>j. herbivoreRegistry a i = Some j \<and> buyPrice j > balance md \<longrightarrow>
          (\<exists>md'. buyHerbivore a i x y (md, g) = Some (md', g) \<and> untouched md md'))
   \<and> (\<forall>j. carnivoreRegistry a i = Some j \<and> buyPrice j > balance md \<longrightarrow>
          (\<exists>md'. buyCarnivore a i x y (md, g) = Some (md', g) \<and> untouched md md'))
   \<and> (\<forall>md'. untouched md md' \<longrightarrow>
          balance md' = balance md \<and> tiles (smap md') = tiles (smap md)
          \<and> spriteList (smap md') = spriteList (smap md)
          \<and> waitingJeeps (smap md') = waitingJeeps (smap md)
          \<and> groups (smap md') = groups (smap md) \<and> isOpen md' = isOpen md)"
  using buy_rejects buyTile_rejects buyJeep_rejects buyRanger_rejects
    buyAnimal_rejects[where md = md and c = Herbivore and i = i and x = x and y = y and g = g]
    buyAnimal_rejects[where md = md and c = Carnivore and i = i and x = x and y = y and g = g]
    untouched_fields[of md]
  by (simp add: buyHerbivore_def buyCarnivore_def)

theorem rejected_purchase_keeps_state_witness:
  "buy 100 poorModel = (False, poorModel)
   \<and> buyTile someAssets ''safari:road'' 1 0 poorModel = Inr poorModel
   \<and> balance (buyJeep someAssets poorModel) = 50
   \<and> waitingJeeps (smap (buyJeep someAssets poorModel)) = []
   \<and> spriteList (smap (buyRanger someAssets 1 0 poorModel)) = []
   \<and> map_option (spriteList \<circ> smap \<circ> fst) (buyHerbivore someAssets ''safari:zebra'' 1 0 (poorModel, halves))
       = Some []"
proof -
  have f: "balance poorModel = 50" "buyPrice (jeepJson someAssets) = 100"
    "buyPrice (rangerJson someAssets) = 100" "herbivoreRegistry someAssets ''safari:zebra'' = Some plainJson"
    "buyPrice plainJson = 100" "waitingJeeps (smap poorModel) = []" "spriteList (smap poorModel) = []"
    "createTile someAssets ''safari:road'' 1 0 = Some (roadTile 1 0)" "tile_buyPrice (roadTile 1 0) = 100"
    "getTileAt (smap poorModel) 1 0 = Inr (sandTile 1 0)" "tid (sandTile 1 0) \<noteq> tid (roadTile 1 0)"
    "tclass (sandTile 1 0) = Sand" "tclass (roadTile 1 0) = Road" "isOpen poorModel = False"
    by (simp_all add: poorModel_def modelOf_def someAssets_def plainJson_def rowMap_def spriteList_def
          createTile_def roadTile_def plainTile_def getTileAt_def gapMap_def sandTile_def)
  from rejected_purchase_keeps_state [where p = 100 and md = poorModel and a = someAssets
      and i = "''safari:zebra''" and x = 1 and y = 0 and tx = 1 and ty = 0 and g = halves]
  have h: "\<exists>md'. buyHerbivore someAssets ''safari:zebra'' 1 0 (poorModel, halves) = Some (md', halves)
             \<and> spriteList (smap md') = []"
    and j: "balance (buyJeep someAssets poorModel) = 50
            \<and> waitingJeeps (smap (buyJeep someAssets poorModel)) = []"
    and r: "spriteList (smap (buyRanger someAssets 1 0 poorModel)) = []"
    and b: "buy 100 poorModel = (False, poorModel)"
    by (auto simp: f)
  from rejected_purchase_keeps_state [where p = 100 and md = poorModel and a = someAssets
      and i = "''safari:road''" and x = 1 and y = 0 and tx = 1 and ty = 0 and g = halves]
  have t: "buyTile someAssets ''safari:road'' 1 0 poorModel = Inr poorModel"
    by (auto simp: f split: sum.splits)
  from h j r b t show ?thesis by auto
qed

text \<open>
  C9 as the specification has it, "no state mutated", does not hold of \<^verbatim>\<open>buyRanger\<close>: with
  a balance of 50 and a price of 100 the ranger is not put on the map, but its \<^verbatim>\<open>load()\<close>
  has emitted \<^verbatim>\<open>updateVisiblesSignal\<close>, and the map has a cache entry it had not, which
  the next sprite asking from that cell with that view distance is answered from.
\<close>

theorem rejected_purchase_counterexample:
  "balance poorModel < buyPrice (rangerJson someAssets)
   \<and> visiblesCache (smap poorModel) = []
   \<and> map c_position (visiblesCache (smap (buyRanger someAssets 1 0 poorModel))) = [(1, 0)]
   \<and> uuid (smap (buyRanger someAssets 1 0 poorModel)) = Suc (uuid (smap poorModel))
   \<and> smap (buyRanger someAssets 1 0 poorModel) \<noteq> smap poorModel"
proof -
  have c: "map c_position (visiblesCache (smap (buyRanger someAssets 1 0 poorModel))) = [(1, 0)]"
    by (simp add: buyRanger_def buy_def Let_def poorModel_def modelOf_def someAssets_def plainJson_def
          rowMap_def gapMap_def load_def construct_def onUpdateVisibles_def newSprite_def viewDistance_def)
  have e: "visiblesCache (smap poorModel) = []"
    by (simp add: poorModel_def modelOf_def rowMap_def gapMap_def)
  have u: "uuid (smap (buyRanger someAssets 1 0 poorModel)) = Suc (uuid (smap poorModel))"
    by (simp add: buyRanger_def buy_def Let_def poorModel_def modelOf_def someAssets_def plainJson_def
          rowMap_def gapMap_def load_def construct_def onUpdateVisibles_def)
  have b: "balance poorModel < buyPrice (rangerJson someAssets)"
    by (simp add: poorModel_def modelOf_def someAssets_def plainJson_def)
  have "smap (buyRanger someAssets 1 0 poorModel) \<noteq> smap poorModel"
  proof
    assume "smap (buyRanger someAssets 1 0 poorModel) = smap poorModel"
    with u show False by simp
  qed
  with c e u b show ?thesis by simp
qed

end
